theory Spec2Isabelle
  imports Main
begin

section \<open>Data model of \<^verbatim>\<open>main.py\<close>\<close>

text \<open>
  The plugin keeps its state in module globals: the dictionary \<^verbatim>\<open>config\<close> and the
  lists \<^verbatim>\<open>local_animations\<close>, \<^verbatim>\<open>local_sets\<close> and \<^verbatim>\<open>animation_cache\<close>. The model
  passes them explicitly. Dictionaries with a fixed set of keys are records; a key that
  only some producers of a dictionary write is an \<open>option\<close> field (\<open>None\<close>: the key
  is absent).
\<close>

text \<open>Python exceptions the code raises or catches, as values.\<close>

datatype exn =
    Exception string
  | OSError string
  | NotImplementedError
  | KeyError string
  | TypeError string
  | NameError string

text \<open>
  Records of \<^verbatim>\<open>decky_plugin.logger\<close>: the level and the message (the attached
  \<^verbatim>\<open>exc_info\<close> is left out).
\<close>

datatype level = INFO | WARNING | ERROR

type_synonym log = "(level \<times> string) list"

text \<open>
  The metadata keys of a catalog entry as \<^verbatim>\<open>get_steamdeckrepo\<close> builds it
  (\<open>download_count\<close> is the key \<^verbatim>\<open>'downloads'\<close>).
\<close>

record catalog_meta =
  preview_image :: string
  preview_video :: string
  author :: string
  description :: string
  last_changed :: string
  source :: string
  download_url :: string
  likes :: int
  download_count :: int
  version :: string
  manifest_version :: int

text \<open>
  An animation entry: keys \<^verbatim>\<open>'id'\<close>, \<^verbatim>\<open>'name'\<close>, \<^verbatim>\<open>'target'\<close> (every producer writes
  them), \<^verbatim>\<open>'path'\<close> (custom entries) and the catalog metadata (catalog and
  downloaded entries).
\<close>

record animation =
  a_id :: string
  a_name :: string
  a_target :: string
  a_path :: "string option"
  a_meta :: "catalog_meta option"

text \<open>
  An animation set: keys \<^verbatim>\<open>'id'\<close>, \<^verbatim>\<open>'enabled'\<close>, one filename per video type (a
  filename read from a per-directory \<^verbatim>\<open>config.json\<close> may be JSON \<^verbatim>\<open>null\<close>, Python
  \<^verbatim>\<open>None\<close>, here \<open>None\<close>), and the key \<^verbatim>\<open>'enable'\<close>, which only
  \<^verbatim>\<open>Plugin.enableSet\<close> writes.
\<close>

record anim_set =
  s_id :: string
  enabled :: bool
  s_boot :: "string option"
  s_suspend :: "string option"
  s_throbber :: "string option"
  enable :: "bool option"

text \<open>The dictionary \<^verbatim>\<open>config\<close>, with the keys \<^verbatim>\<open>load_config\<close> gives it.\<close>

record config =
  boot :: string
  suspend :: string
  throbber :: string
  randomize :: string
  current_set :: string
  downloads :: "animation list"
  custom_animations :: "animation list"
  custom_sets :: "anim_set list"
  shuffle_exclusions :: "string list"
  force_ipv4 :: bool

definition VIDEO_TYPES :: "string list" where
  "VIDEO_TYPES = [''boot'', ''suspend'', ''throbber'']"

definition VIDEO_TARGETS :: "string list" where
  "VIDEO_TARGETS = [''boot'', ''suspend'', ''suspend'']"

definition REQUEST_RETRIES :: nat where
  "REQUEST_RETRIES = 5"

text \<open>
  \<^verbatim>\<open>config[key]\<close> and \<^verbatim>\<open>config[key] = v\<close> for the three slot keys; the code indexes
  \<^verbatim>\<open>config\<close> this way with the elements of \<^verbatim>\<open>VIDEO_TYPES\<close> only, any other key is
  \<open>None\<close> on reading and leaves the record as it is on writing.
\<close>

definition config_get :: "config \<Rightarrow> string \<Rightarrow> string option" where
  "config_get cfg key =
     (if key = ''boot'' then Some (boot cfg)
      else if key = ''suspend'' then Some (suspend cfg)
      else if key = ''throbber'' then Some (throbber cfg)
      else None)"

definition config_set :: "config \<Rightarrow> string \<Rightarrow> string \<Rightarrow> config" where
  "config_set cfg key v =
     (if key = ''boot'' then cfg\<lparr>boot := v\<rparr>
      else if key = ''suspend'' then cfg\<lparr>suspend := v\<rparr>
      else if key = ''throbber'' then cfg\<lparr>throbber := v\<rparr>
      else cfg)"

text \<open>\<^verbatim>\<open>new_set[VIDEO_TYPES[i]]\<close>: the filename a set holds for a video type.\<close>

definition set_get :: "anim_set \<Rightarrow> string \<Rightarrow> string option" where
  "set_get s key =
     (if key = ''boot'' then s_boot s
      else if key = ''suspend'' then s_suspend s
      else if key = ''throbber'' then s_throbber s
      else None)"

section \<open>The platform and the operating system\<close>

text \<open>
  The module constants computed at import time: \<^verbatim>\<open>platform.system()\<close>, the paths
  of \<^verbatim>\<open>get_steam_paths\<close> (\<open>None\<close> is Python's \<^verbatim>\<open>None\<close>, its last fallback) and
  the plugin's directories.
\<close>

record env =
  system :: string
  OVERRIDE_PATH :: "string option"
  STEAMUI_MOVIES_PATH :: "string option"
  CONFIG_PATH :: string
  ANIMATIONS_PATH :: string
  DOWNLOADS_PATH :: string

definition get_video_names :: "env \<Rightarrow> string list" where
  "get_video_names e =
     (if system e = ''Windows'' then
        [''bigpicture_startup.webm'', ''bigpicture_suspend.webm'',
         ''bigpicture_suspend_from_throbber.webm'']
      else
        [''deck_startup.webm'', ''steam_os_suspend.webm'',
         ''steam_os_suspend_from_throbber.webm''])"

definition VIDEOS_NAMES :: "env \<Rightarrow> string list" where
  "VIDEOS_NAMES e = get_video_names e"

definition is_video_supported :: "env \<Rightarrow> string \<Rightarrow> bool" where
  "is_video_supported e video_type =
     (if system e = ''Windows'' then video_type = ''boot'' else True)"

text \<open>
  What \<^verbatim>\<open>json.load\<close> returns for a per-directory \<^verbatim>\<open>config.json\<close>. The file may
  hold any JSON document: \<^verbatim>\<open>null\<close>, a boolean, a number, a string, an array or an
  object. Of an object the scanner reads the four keys of \<open>anim_config\<close>: each may
  be absent (outer \<open>None\<close>), the flag is a boolean and a filename is a string or
  \<^verbatim>\<open>null\<close> (inner \<open>None\<close>), the types \<^verbatim>\<open>Plugin.enableSet\<close> dumps. Of a number only
  its kind matters to the scanner (a float behaves as an integer does).
\<close>

record anim_config =
  c_enabled :: "bool option"
  c_boot :: "string option option"
  c_suspend :: "string option option"
  c_throbber :: "string option option"

datatype json =
    JNull
  | JBool bool
  | JNumber int
  | JString string
  | JArray "json list"
  | JObject anim_config

text \<open>
  The library calls the code makes on the file system, as an interface over a state
  \<open>'fs\<close> of the file system; the theorems hold for every implementation. A call
  that can raise returns the exception (\<open>None\<close>: it returned) and the state it leaves.
  \<^item> \<open>path_join\<close>: \<^verbatim>\<open>os.path.join\<close>;
  \<^item> \<open>path_exists\<close>, \<open>path_islink\<close>: \<^verbatim>\<open>os.path.exists\<close>, \<^verbatim>\<open>os.path.islink\<close>;
  \<^item> \<open>os_remove\<close>, \<open>os_symlink\<close>, \<open>copy2\<close>: \<^verbatim>\<open>os.remove(path)\<close>,
    \<^verbatim>\<open>os.symlink(src, dst)\<close>, \<^verbatim>\<open>shutil.copy2(src, dst)\<close>;
  \<^item> \<open>walk_dirs\<close>: \<^verbatim>\<open>next(os.walk(path))[1]\<close>, the immediate subdirectories;
  \<^item> \<open>load_json\<close>: \<^verbatim>\<open>open(path)\<close> and \<^verbatim>\<open>json.load\<close> of a per-directory config;
  \<^item> \<open>dump_config\<close>, \<open>dump_set\<close>: \<^verbatim>\<open>open(path, 'w')\<close> and \<^verbatim>\<open>json.dump\<close> of the
    config and of a set.
\<close>

record 'fs os =
  path_join :: "string \<Rightarrow> string \<Rightarrow> string"
  path_exists :: "'fs \<Rightarrow> string \<Rightarrow> bool"
  path_islink :: "'fs \<Rightarrow> string \<Rightarrow> bool"
  os_remove :: "'fs \<Rightarrow> string \<Rightarrow> exn option \<times> 'fs"
  os_symlink :: "'fs \<Rightarrow> string \<Rightarrow> string \<Rightarrow> exn option \<times> 'fs"
  copy2 :: "'fs \<Rightarrow> string \<Rightarrow> string \<Rightarrow> exn option \<times> 'fs"
  walk_dirs :: "'fs \<Rightarrow> string \<Rightarrow> exn + string list"
  load_json :: "'fs \<Rightarrow> string \<Rightarrow> exn + json"
  dump_config :: "'fs \<Rightarrow> string \<Rightarrow> config \<Rightarrow> exn option \<times> 'fs"
  dump_set :: "'fs \<Rightarrow> string \<Rightarrow> anim_set \<Rightarrow> exn option \<times> 'fs"

text \<open>
  \<^verbatim>\<open>save_config\<close>: a failure is logged by \<^verbatim>\<open>raise_and_log\<close> and raised again.
\<close>

definition save_config ::
  "'fs os \<Rightarrow> env \<Rightarrow> config \<Rightarrow> 'fs \<times> log \<Rightarrow> exn option \<times> 'fs \<times> log" where
  "save_config sys e cfg w =
     (case w of (fs, lg) \<Rightarrow>
        (case dump_config sys fs (CONFIG_PATH e) cfg of
           (None, fs') \<Rightarrow> (None, fs', lg)
         | (Some ex, fs') \<Rightarrow> (Some ex, fs', lg @ [(ERROR, ''Failed to save config'')])))"

section \<open>The local scanner\<close>

text \<open>The typed lookup of a filename key in an object.\<close>

definition anim_config_get :: "anim_config \<Rightarrow> string \<Rightarrow> string option option" where
  "anim_config_get c key =
     (if key = ''boot'' then c_boot c
      else if key = ''suspend'' then c_suspend c
      else if key = ''throbber'' then c_throbber c
      else None)"

text \<open>
  Python's \<^verbatim>\<open>key in anim_config\<close> on what \<^verbatim>\<open>json.load\<close> returned: the keys of a
  dict, the elements of a list, the substrings of a string; on \<^verbatim>\<open>None\<close>, a boolean
  or a number it raises a \<^verbatim>\<open>TypeError\<close> (the argument is not iterable).
\<close>

fun starts_with :: "string \<Rightarrow> string \<Rightarrow> bool" where
  "starts_with [] s = True"
| "starts_with (k # ks) [] = False"
| "starts_with (k # ks) (c # cs) = (k = c \<and> starts_with ks cs)"

fun substring_of :: "string \<Rightarrow> string \<Rightarrow> bool" where
  "substring_of k [] = (k = [])"
| "substring_of k (c # cs) = (starts_with k (c # cs) \<or> substring_of k cs)"

definition key_in :: "string \<Rightarrow> json \<Rightarrow> exn + bool" where
  "key_in key doc =
     (case doc of
        JObject c \<Rightarrow>
          Inr (if key = ''enabled'' then c_enabled c \<noteq> None else anim_config_get c key \<noteq> None)
      | JArray xs \<Rightarrow> Inr (JString key \<in> set xs)
      | JString s \<Rightarrow> Inr (substring_of key s)
      | JNull \<Rightarrow> Inl (TypeError ''argument of type NoneType is not iterable'')
      | JBool b \<Rightarrow> Inl (TypeError ''argument of type bool is not iterable'')
      | JNumber n \<Rightarrow> Inl (TypeError ''argument of type int is not iterable''))"

text \<open>
  Python's \<^verbatim>\<open>anim_config['enabled']\<close> and \<^verbatim>\<open>anim_config[anim_type]\<close>: the value
  of a dict's key; a list and a string raise a \<^verbatim>\<open>TypeError\<close> on a string index.
\<close>

definition get_enabled :: "json \<Rightarrow> exn + bool" where
  "get_enabled doc =
     (case doc of
        JObject c \<Rightarrow> (case c_enabled c of Some b \<Rightarrow> Inr b | None \<Rightarrow> Inl (KeyError ''enabled''))
      | JArray xs \<Rightarrow> Inl (TypeError ''list indices must be integers or slices, not str'')
      | JString s \<Rightarrow> Inl (TypeError ''string indices must be integers'')
      | JNull \<Rightarrow> Inl (TypeError ''NoneType object is not subscriptable'')
      | JBool b \<Rightarrow> Inl (TypeError ''bool object is not subscriptable'')
      | JNumber n \<Rightarrow> Inl (TypeError ''int object is not subscriptable''))"

definition get_filename :: "string \<Rightarrow> json \<Rightarrow> exn + string option" where
  "get_filename key doc =
     (case doc of
        JObject c \<Rightarrow> (case anim_config_get c key of Some f \<Rightarrow> Inr f | None \<Rightarrow> Inl (KeyError key))
      | JArray xs \<Rightarrow> Inl (TypeError ''list indices must be integers or slices, not str'')
      | JString s \<Rightarrow> Inl (TypeError ''string indices must be integers'')
      | JNull \<Rightarrow> Inl (TypeError ''NoneType object is not subscriptable'')
      | JBool b \<Rightarrow> Inl (TypeError ''bool object is not subscriptable'')
      | JNumber n \<Rightarrow> Inl (TypeError ''int object is not subscriptable''))"

text \<open>\<^verbatim>\<open>local_set[anim_type] = filename\<close>.\<close>

definition set_put :: "anim_set \<Rightarrow> string \<Rightarrow> string option \<Rightarrow> anim_set" where
  "set_put s key v =
     (if key = ''boot'' then s\<lparr>s_boot := v\<rparr>
      else if key = ''suspend'' then s\<lparr>s_suspend := v\<rparr>
      else if key = ''throbber'' then s\<lparr>s_throbber := v\<rparr>
      else s)"

text \<open>\<^verbatim>\<open>str.capitalize\<close> on ASCII letters: the first upper case, the rest lower case.\<close>

definition upper_char :: "char \<Rightarrow> char" where
  "upper_char c =
     (case map_of (zip ''abcdefghijklmnopqrstuvwxyz'' ''ABCDEFGHIJKLMNOPQRSTUVWXYZ'') c of
        Some u \<Rightarrow> u
      | None \<Rightarrow> c)"

definition lower_char :: "char \<Rightarrow> char" where
  "lower_char c =
     (case map_of (zip ''ABCDEFGHIJKLMNOPQRSTUVWXYZ'' ''abcdefghijklmnopqrstuvwxyz'') c of
        Some l \<Rightarrow> l
      | None \<Rightarrow> c)"

definition capitalize :: "string \<Rightarrow> string" where
  "capitalize s = (case s of [] \<Rightarrow> [] | c # cs \<Rightarrow> upper_char c # map lower_char cs)"

text \<open>
  The inner function \<^verbatim>\<open>process_animation(default, anim_type, target)\<close> (\<open>dflt\<close> is its
  parameter \<^verbatim>\<open>default\<close>): it writes the filename into \<^verbatim>\<open>local_set\<close> and appends an
  entry to \<^verbatim>\<open>animations\<close>. The filename is the one of the config when the config has
  the key, else the default name if that file exists, else the empty string. The
  tests \<^verbatim>\<open>anim_type not in anim_config\<close> and the read \<^verbatim>\<open>anim_config[anim_type]\<close> may
  raise; nothing catches them.
\<close>

definition process_animation ::
  "'fs os \<Rightarrow> env \<Rightarrow> 'fs \<Rightarrow> string \<Rightarrow> json \<Rightarrow> string \<Rightarrow> string \<Rightarrow> string \<Rightarrow>
     anim_set \<times> animation list \<Rightarrow> exn + anim_set \<times> animation list" where
  "process_animation sys e fs directory cfg dflt anim_type target acc =
     (case acc of (local_set, animations) \<Rightarrow>
        (case key_in anim_type cfg of
           Inl ex \<Rightarrow> Inl ex
         | Inr present \<Rightarrow>
             (case (if present then get_filename anim_type cfg
                    else if \<not> path_exists sys fs
                           (path_join sys (path_join sys (ANIMATIONS_PATH e) directory) dflt)
                    then Inr (Some []) else Inr (Some dflt)) of
                Inl ex \<Rightarrow> Inl ex
              | Inr filename \<Rightarrow>
                  let local_set' = set_put local_set anim_type filename
                  in (case filename of
                        None \<Rightarrow> Inr (local_set', animations)
                      | Some name \<Rightarrow>
                          if name \<noteq> [] then
                            Inr (local_set',
                                 animations @
                                   [\<lparr>a_id = directory @ ''/'' @ name,
                                     a_name = (if anim_type = ''boot'' then directory
                                               else directory @ '' - '' @ capitalize anim_type),
                                     a_target = target, a_path = None, a_meta = None\<rparr>])
                          else Inr (local_set', animations)))))"

text \<open>
  The body of the loop over \<^verbatim>\<open>directories\<close>, in three definitions. First the test
  for a set: \<^verbatim>\<open>is_set\<close>, \<^verbatim>\<open>anim_config\<close> and the records logged. The loop that
  recognises a set by one of the default files is the \<^verbatim>\<open>else\<close> branch of
  \<^verbatim>\<open>if os.path.exists(config_path)\<close>; when opening or loading the config raises,
  the exception is caught and logged and \<^verbatim>\<open>is_set\<close> stays \<^verbatim>\<open>False\<close>.
\<close>

definition detect_set ::
  "'fs os \<Rightarrow> env \<Rightarrow> 'fs \<Rightarrow> string \<Rightarrow> bool \<times> json \<times> log" where
  "detect_set sys e fs directory =
     (let config_path =
            path_join sys (path_join sys (ANIMATIONS_PATH e) directory) ''config.json'';
          anim_config0 =
            JObject \<lparr>c_enabled = None, c_boot = None, c_suspend = None, c_throbber = None\<rparr>
      in if path_exists sys fs config_path then
           (case load_json sys fs config_path of
              Inr parsed \<Rightarrow> (True, parsed, [])
            | Inl ex \<Rightarrow>
                (False, anim_config0,
                 [(WARNING, ''Failed to parse config.json for: '' @ directory)]))
         else
           (list_ex (\<lambda>video. path_exists sys fs
               (path_join sys (path_join sys (ANIMATIONS_PATH e) directory) video))
              (VIDEOS_NAMES e),
            anim_config0, []))"

text \<open>
  Then the set of the directory: \<^verbatim>\<open>local_set\<close>, whose flag is
  \<^verbatim>\<open>anim_config['enabled'] if 'enabled' in anim_config else True\<close>, and the three calls
  of \<^verbatim>\<open>process_animation\<close>. This part stands outside the \<^verbatim>\<open>try\<close>: an exception
  raised here ends the function.
\<close>

fun process_animations ::
  "'fs os \<Rightarrow> env \<Rightarrow> 'fs \<Rightarrow> string \<Rightarrow> json \<Rightarrow> nat list \<Rightarrow>
     anim_set \<times> animation list \<Rightarrow> exn + anim_set \<times> animation list" where
  "process_animations sys e fs directory cfg [] acc = Inr acc"
| "process_animations sys e fs directory cfg (i # rest) acc =
     (case process_animation sys e fs directory cfg
             (VIDEOS_NAMES e ! i) (VIDEO_TYPES ! i) (VIDEO_TARGETS ! i) acc of
        Inl ex \<Rightarrow> Inl ex
      | Inr acc' \<Rightarrow> process_animations sys e fs directory cfg rest acc')"

definition build_set ::
  "'fs os \<Rightarrow> env \<Rightarrow> 'fs \<Rightarrow> string \<Rightarrow> json \<Rightarrow> animation list \<Rightarrow>
     exn + anim_set \<times> animation list" where
  "build_set sys e fs directory cfg animations =
     (case key_in ''enabled'' cfg of
        Inl ex \<Rightarrow> Inl ex
      | Inr present \<Rightarrow>
          (case (if present then get_enabled cfg else Inr True) of
             Inl ex \<Rightarrow> Inl ex
           | Inr flag \<Rightarrow>
               process_animations sys e fs directory cfg [0..<3]
                 (\<lparr>s_id = directory, enabled = flag,
                   s_boot = None, s_suspend = None, s_throbber = None, enable = None\<rparr>,
                  animations)))"

text \<open>
  The round as a whole. The state is the lists \<^verbatim>\<open>animations\<close> and \<^verbatim>\<open>sets\<close> and
  the log; \<^verbatim>\<open>continue\<close> leaves the two lists as they are. The result says whether
  the round raised (then the lists are of no use: the function is left before it
  assigns the globals).
\<close>

definition scan_directory ::
  "'fs os \<Rightarrow> env \<Rightarrow> 'fs \<Rightarrow> string \<Rightarrow>
     animation list \<times> anim_set list \<times> log \<Rightarrow>
     exn option \<times> animation list \<times> anim_set list \<times> log" where
  "scan_directory sys e fs directory acc =
     (case acc of (animations, sets, lg) \<Rightarrow>
        (case detect_set sys e fs directory of
           (is_set, cfg, records) \<Rightarrow>
             if \<not> is_set then (None, animations, sets, lg @ records)
             else
               (case build_set sys e fs directory cfg animations of
                  Inl ex \<Rightarrow> (Some ex, animations, sets, lg @ records)
                | Inr (local_set, animations') \<Rightarrow>
                    (None, animations', sets @ [local_set], lg @ records))))"

text \<open>The exception and the two lists of a result of the loop, without the log.\<close>

definition scanned ::
  "exn option \<times> animation list \<times> anim_set list \<times> log \<Rightarrow>
     exn option \<times> animation list \<times> anim_set list" where
  "scanned r = (fst r, fst (snd r), fst (snd (snd r)))"

text \<open>
  The loop over \<^verbatim>\<open>directories\<close>: a round that raises ends it. Then
  \<^verbatim>\<open>load_local_animations\<close>: the exception raised, or the new values of the globals
  \<^verbatim>\<open>local_animations\<close> and \<^verbatim>\<open>local_sets\<close>; and the log. The directory listing may
  raise too.
\<close>

fun scan_loop ::
  "'fs os \<Rightarrow> env \<Rightarrow> 'fs \<Rightarrow> string list \<Rightarrow>
     animation list \<times> anim_set list \<times> log \<Rightarrow>
     exn option \<times> animation list \<times> anim_set list \<times> log" where
  "scan_loop sys e fs [] acc = (None, acc)"
| "scan_loop sys e fs (directory # rest) acc =
     (case scan_directory sys e fs directory acc of
        (Some ex, acc') \<Rightarrow> (Some ex, acc')
      | (None, acc') \<Rightarrow> scan_loop sys e fs rest acc')"

definition scan_directories ::
  "'fs os \<Rightarrow> env \<Rightarrow> 'fs \<Rightarrow> string list \<Rightarrow> log \<Rightarrow>
     exn option \<times> animation list \<times> anim_set list \<times> log" where
  "scan_directories sys e fs directories lg = scan_loop sys e fs directories ([], [], lg)"

definition load_local_animations ::
  "'fs os \<Rightarrow> env \<Rightarrow> 'fs \<Rightarrow> log \<Rightarrow> (exn + animation list \<times> anim_set list) \<times> log" where
  "load_local_animations sys e fs lg =
     (case walk_dirs sys fs (ANIMATIONS_PATH e) of
        Inl ex \<Rightarrow> (Inl ex, lg)
      | Inr directories \<Rightarrow>
          (case scan_directories sys e fs directories lg of
             (Some ex, animations, sets, lg') \<Rightarrow> (Inl ex, lg')
           | (None, animations, sets, lg') \<Rightarrow> (Inr (animations, sets), lg')))"

section \<open>The randomizer\<close>

text \<open>
  \<^verbatim>\<open>random.randint(a, b)\<close> returns an integer of \<open>[a, b]\<close>. The generator's raw
  draw is a parameter \<open>r\<close>, reduced into the interval; every value of the interval is
  the result for some draw. The code calls it with \<open>a = 0\<close> and \<open>b = len - 1\<close> for
  a non-empty list only.
\<close>

definition randint :: "nat \<Rightarrow> nat \<Rightarrow> nat \<Rightarrow> nat" where
  "randint a b r = a + r mod (b - a + 1)"

definition get_active_sets :: "anim_set list \<Rightarrow> config \<Rightarrow> anim_set list" where
  "get_active_sets local_sets cfg =
     filter (\<lambda>entry. enabled entry) (local_sets @ custom_sets cfg)"

text \<open>
  One round of the loop of \<^verbatim>\<open>randomize_current_set\<close> over \<^verbatim>\<open>range(3)\<close>, for the
  chosen set; \<^verbatim>\<open>if filename:\<close> is false for \<^verbatim>\<open>None\<close> and for the empty string.
\<close>

definition set_slot_from :: "anim_set \<Rightarrow> nat \<Rightarrow> config \<Rightarrow> config" where
  "set_slot_from new_set i cfg =
     (case set_get new_set (VIDEO_TYPES ! i) of
        Some filename \<Rightarrow>
          if filename \<noteq> [] then config_set cfg (VIDEO_TYPES ! i) (s_id new_set @ ''/'' @ filename)
          else config_set cfg (VIDEO_TYPES ! i) []
      | None \<Rightarrow> config_set cfg (VIDEO_TYPES ! i) [])"

text \<open>
  The identifier the loop of \<^verbatim>\<open>randomize_current_set\<close> writes into slot \<open>i\<close>
  for the chosen set (what \<open>set_slot_from\<close> assigns).
\<close>

definition slot_of_set :: "anim_set \<Rightarrow> nat \<Rightarrow> string" where
  "slot_of_set new_set i =
     (case set_get new_set (VIDEO_TYPES ! i) of
        Some filename \<Rightarrow> if filename \<noteq> [] then s_id new_set @ ''/'' @ filename else []
      | None \<Rightarrow> [])"

definition randomize_current_set :: "anim_set list \<Rightarrow> nat \<Rightarrow> config \<Rightarrow> config" where
  "randomize_current_set local_sets r cfg =
     (let active = get_active_sets local_sets cfg in
      if length active > 0 then
        let new_set = active ! randint 0 (length active - 1) r in
        fold (set_slot_from new_set) [0..<3] (cfg\<lparr>current_set := s_id new_set\<rparr>)
      else
        fold (\<lambda>i c. config_set c (VIDEO_TYPES ! i) []) [0..<3] (cfg\<lparr>current_set := []\<rparr>))"

text \<open>
  \<^verbatim>\<open>randomize_all\<close>: the pool of a slot, and the loop over \<^verbatim>\<open>range(3)\<close>. \<open>rnd i\<close>
  is the generator's draw in round \<open>i\<close> (a round draws at most once).
\<close>

definition pool :: "animation list \<Rightarrow> config \<Rightarrow> nat \<Rightarrow> animation list" where
  "pool local_animations cfg i =
     filter (\<lambda>anim. a_target anim = VIDEO_TARGETS ! i \<and> a_id anim \<notin> set (shuffle_exclusions cfg))
       (local_animations @ downloads cfg @ custom_animations cfg)"

definition randomize_slot :: "animation list \<Rightarrow> (nat \<Rightarrow> nat) \<Rightarrow> nat \<Rightarrow> config \<Rightarrow> config" where
  "randomize_slot local_animations rnd i cfg =
     (let p = pool local_animations cfg i in
      if length p > 0 then
        config_set cfg (VIDEO_TYPES ! i) (a_id (p ! randint 0 (length p - 1) (rnd i)))
      else cfg)"

definition randomize_all :: "animation list \<Rightarrow> (nat \<Rightarrow> nat) \<Rightarrow> config \<Rightarrow> config" where
  "randomize_all local_animations rnd cfg =
     (fold (randomize_slot local_animations rnd) [0..<3] cfg)\<lparr>current_set := []\<rparr>"

section \<open>Custom sets and custom animations\<close>

definition remove_custom_set :: "string \<Rightarrow> config \<Rightarrow> config" where
  "remove_custom_set set_id cfg =
     cfg\<lparr>custom_sets := filter (\<lambda>entry. s_id entry \<noteq> set_id) (custom_sets cfg)\<rparr>"

definition remove_custom_animation :: "string \<Rightarrow> config \<Rightarrow> config" where
  "remove_custom_animation anim_id cfg =
     cfg\<lparr>custom_animations := filter (\<lambda>anim. a_id anim \<noteq> anim_id) (custom_animations cfg)\<rparr>"

text \<open>
  \<^verbatim>\<open>Plugin.saveCustomSet\<close> and \<^verbatim>\<open>Plugin.saveCustomAnimation\<close>. The result is the
  exception raised (\<open>None\<close>: the call returned), the dictionary \<^verbatim>\<open>config\<close> as the
  call leaves it in memory, the file system and the log. The entry is appended before
  \<^verbatim>\<open>save_config\<close> runs, so it is in memory also when saving raises.
\<close>

definition saveCustomSet ::
  "'fs os \<Rightarrow> env \<Rightarrow> anim_set \<Rightarrow> config \<times> 'fs \<times> log \<Rightarrow> exn option \<times> config \<times> 'fs \<times> log" where
  "saveCustomSet sys e set_entry st =
     (case st of (cfg, fs, lg) \<Rightarrow>
        let cfg1 = remove_custom_set (s_id set_entry) cfg;
            cfg2 = cfg1\<lparr>custom_sets := custom_sets cfg1 @ [set_entry]\<rparr>
        in (case save_config sys e cfg2 (fs, lg) of
              (None, fs', lg') \<Rightarrow> (None, cfg2, fs', lg')
            | (Some ex, fs', lg') \<Rightarrow>
                (Some ex, cfg2, fs', lg' @ [(ERROR, ''Failed to save custom set'')])))"

definition saveCustomAnimation ::
  "'fs os \<Rightarrow> env \<Rightarrow> animation \<Rightarrow> config \<times> 'fs \<times> log \<Rightarrow> exn option \<times> config \<times> 'fs \<times> log" where
  "saveCustomAnimation sys e anim_entry st =
     (case st of (cfg, fs, lg) \<Rightarrow>
        let cfg1 = remove_custom_animation (a_id anim_entry) cfg;
            cfg2 = cfg1\<lparr>custom_animations := custom_animations cfg1 @ [anim_entry]\<rparr>
        in (case save_config sys e cfg2 (fs, lg) of
              (None, fs', lg') \<Rightarrow> (None, cfg2, fs', lg')
            | (Some ex, fs', lg') \<Rightarrow>
                (Some ex, cfg2, fs', lg' @ [(ERROR, ''Failed to save custom animation'')])))"

section \<open>Enabling and disabling a set\<close>

text \<open>
  The two loops of \<^verbatim>\<open>Plugin.enableSet\<close> stop at the first entry whose id is
  \<^verbatim>\<open>set_id\<close> and assign \<^verbatim>\<open>entry['enable'] = enable\<close> in place. \<open>enable_first\<close>
  gives that entry after the assignment and the list holding it, or \<open>None\<close> when no
  entry has the id.
\<close>

fun enable_first :: "string \<Rightarrow> bool \<Rightarrow> anim_set list \<Rightarrow> (anim_set \<times> anim_set list) option" where
  "enable_first set_id en [] = None"
| "enable_first set_id en (entry # rest) =
     (if s_id entry = set_id then
        Some (entry\<lparr>enable := Some en\<rparr>, entry\<lparr>enable := Some en\<rparr> # rest)
      else
        (case enable_first set_id en rest of
           None \<Rightarrow> None
         | Some (found, rest') \<Rightarrow> Some (found, entry # rest')))"

definition enableSet ::
  "'fs os \<Rightarrow> env \<Rightarrow> string \<Rightarrow> bool \<Rightarrow> anim_set list \<times> config \<times> 'fs \<times> log \<Rightarrow>
     exn option \<times> anim_set list \<times> config \<times> 'fs \<times> log" where
  "enableSet sys e set_id en st =
     (case st of (local_sets, cfg, fs, lg) \<Rightarrow>
        (case enable_first set_id en local_sets of
           Some (entry, local_sets') \<Rightarrow>
             let config_file =
                   path_join sys (path_join sys (ANIMATIONS_PATH e) (s_id entry)) ''config.json''
             in (case dump_set sys fs config_file entry of
                   (None, fs') \<Rightarrow> (None, local_sets', cfg, fs', lg)
                 | (Some ex, fs') \<Rightarrow>
                     (Some ex, local_sets', cfg, fs', lg @ [(ERROR, ''Failed to enable set'')]))
         | None \<Rightarrow>
             (case enable_first set_id en (custom_sets cfg) of
                Some (entry, custom_sets') \<Rightarrow>
                  let cfg' = cfg\<lparr>custom_sets := custom_sets'\<rparr>
                  in (case save_config sys e cfg' (fs, lg) of
                        (None, fs', lg') \<Rightarrow> (None, local_sets, cfg', fs', lg')
                      | (Some ex, fs', lg') \<Rightarrow>
                          (Some ex, local_sets, cfg', fs', lg' @ [(ERROR, ''Failed to enable set'')]))
              | None \<Rightarrow> (None, local_sets, cfg, fs, lg))))"

section \<open>The catalog cache\<close>

text \<open>
  An entry of the remote list, with the keys \<^verbatim>\<open>get_steamdeckrepo\<close> reads
  (\<open>p_steam_name\<close> is \<^verbatim>\<open>entry['user']['steam_name']\<close>).
\<close>

record post =
  p_id :: string
  p_title :: string
  p_thumbnail :: string
  p_video :: string
  p_steam_name :: string
  p_content :: string
  p_updated_at :: string
  p_url :: string
  p_likes :: int
  p_downloads :: int
  p_type :: string

text \<open>
  What one round of the retry loop gets from the network: a response with its status
  and the value of \<^verbatim>\<open>(await res.json())['posts']\<close> (which may raise), or an exception
  of the request itself. \<open>web k\<close> is the outcome of request number \<open>k\<close>, counted
  from 0. The transport option \<^verbatim>\<open>config['force_ipv4']\<close> only selects the connector.
\<close>

datatype outcome = Response nat "exn + post list" | Failed exn

text \<open>\<^verbatim>\<open>str\<close> of a status code, for the messages.\<close>

definition digit_char :: "nat \<Rightarrow> char" where
  "digit_char d = ''0123456789'' ! d"

fun str_nat :: "nat \<Rightarrow> string" where
  "str_nat n = (if n < 10 then [digit_char n] else str_nat (n div 10) @ [digit_char (n mod 10)])"

declare str_nat.simps [simp del]

text \<open>
  The loop \<^verbatim>\<open>for _ in range(REQUEST_RETRIES)\<close> with its \<^verbatim>\<open>else\<close> branch. The
  arguments are the rounds left, the local \<^verbatim>\<open>status\<close> (\<open>None\<close>: not yet bound), the
  number of requests made so far and the log; the result is \<^verbatim>\<open>data\<close> or the
  exception, the number of requests made and the log.
\<close>

fun fetch_loop ::
  "(nat \<Rightarrow> outcome) \<Rightarrow> nat list \<Rightarrow> nat option \<Rightarrow> nat \<Rightarrow> log \<Rightarrow> (exn + post list) \<times> nat \<times> log" where
  "fetch_loop web [] status n lg =
     (case status of
        None \<Rightarrow> (Inl (NameError ''status''), n, lg)
      | Some s \<Rightarrow>
          (Inl (Exception (''Retry attempts exceeded, status code: '' @ str_nat s)), n, lg))"
| "fetch_loop web (k # ks) status n lg =
     (case web k of
        Failed ex \<Rightarrow> (Inl ex, Suc n, lg)
      | Response st body \<Rightarrow>
          if st = 200 then (body, Suc n, lg)
          else if st = 429 then
            (Inl (Exception ''Rate limit exceeded, try again in a minute''), Suc n, lg)
          else
            fetch_loop web ks (Some st) (Suc n)
              (lg @ [(WARNING, ''steamdeckrepo fetch failed, status='' @ str_nat st)]))"

text \<open>
  For the statements about the loop: a response that the loop retries (any status but
  200 and 429), the status of a response, and the network that answers request
  \<open>k\<close> with the \<open>k\<close>-th element of a list (and refuses the connection after it).
\<close>

fun retryable :: "outcome \<Rightarrow> bool" where
  "retryable (Response st body) = (st \<noteq> 200 \<and> st \<noteq> 429)"
| "retryable (Failed ex) = False"

fun status_code :: "outcome \<Rightarrow> nat" where
  "status_code (Response st body) = st"
| "status_code (Failed ex) = 0"

definition serve :: "outcome list \<Rightarrow> nat \<Rightarrow> outcome" where
  "serve rs k = (if k < length rs then rs ! k else Failed (OSError ''Connection refused''))"

definition entry_of_post :: "post \<Rightarrow> animation" where
  "entry_of_post entry =
     \<lparr>a_id = p_id entry,
      a_name = p_title entry,
      a_target = (if p_type entry = ''suspend_video'' then ''suspend'' else ''boot''),
      a_path = None,
      a_meta = Some
        \<lparr>preview_image = p_thumbnail entry,
         preview_video = p_video entry,
         author = p_steam_name entry,
         description = p_content entry,
         last_changed = p_updated_at entry,
         source = p_url entry,
         download_url = ''https://steamdeckrepo.com/post/download/'' @ p_id entry,
         likes = p_likes entry,
         download_count = p_downloads entry,
         version = [],
         manifest_version = 1\<rparr>\<rparr>"

definition parse_posts :: "post list \<Rightarrow> animation list" where
  "parse_posts data =
     map entry_of_post
       (filter (\<lambda>entry. p_type entry \<in> set [''suspend_video'', ''boot_video'']) data)"

definition get_steamdeckrepo :: "(nat \<Rightarrow> outcome) \<Rightarrow> log \<Rightarrow> (exn + animation list) \<times> nat \<times> log" where
  "get_steamdeckrepo web lg =
     (case fetch_loop web [0..<REQUEST_RETRIES] None 0 lg of
        (Inr data, n, lg') \<Rightarrow> (Inr (parse_posts data), n, lg')
      | (Inl ex, n, lg') \<Rightarrow> (Inl ex, n, lg' @ [(ERROR, ''Failed to fetch steamdeckrepo'')]))"

section \<open>The activation engine\<close>

text \<open>
  \<^verbatim>\<open>raise_and_log(msg, ex)\<close>: it logs \<^verbatim>\<open>msg\<close> as an error and raises \<^verbatim>\<open>ex\<close>, or
  \<^verbatim>\<open>Exception(msg)\<close> when \<^verbatim>\<open>ex\<close> is \<^verbatim>\<open>None\<close>.
\<close>

definition raise_and_log :: "string \<Rightarrow> exn option \<Rightarrow> 'fs \<times> log \<Rightarrow> exn option \<times> 'fs \<times> log" where
  "raise_and_log msg ex w =
     (case w of (fs, lg) \<Rightarrow>
        (Some (case ex of None \<Rightarrow> Exception msg | Some x \<Rightarrow> x), fs, lg @ [(ERROR, msg)]))"

text \<open>The first loop of \<^verbatim>\<open>apply_animation\<close>: the video type of a file name.\<close>

definition find_video_type :: "env \<Rightarrow> string \<Rightarrow> string option" where
  "find_video_type e video =
     map_option snd (find (\<lambda>p. fst p = video) (zip (VIDEOS_NAMES e) VIDEO_TYPES))"

text \<open>
  The choice of the target path (with \<^verbatim>\<open>use_steamui\<close>) and the backup of the file
  there. \<^verbatim>\<open>os.path.join(OVERRIDE_PATH, video)\<close> raises a \<^verbatim>\<open>TypeError\<close> when
  \<^verbatim>\<open>OVERRIDE_PATH\<close> is \<^verbatim>\<open>None\<close>.
\<close>

definition select_target ::
  "'fs os \<Rightarrow> env \<Rightarrow> string \<Rightarrow> 'fs \<times> log \<Rightarrow> exn + (string \<times> bool \<times> 'fs \<times> log)" where
  "select_target sys e video w =
     (case w of (fs, lg) \<Rightarrow>
        (case (if system e = ''Windows'' then STEAMUI_MOVIES_PATH e else None) of
           Some movies \<Rightarrow>
             if movies \<noteq> [] then
               let target_path = path_join sys movies video;
                   backup_path = target_path @ ''.backup''
               in if \<not> path_exists sys fs backup_path \<and> path_exists sys fs target_path then
                    (case copy2 sys fs target_path backup_path of
                       (None, fs') \<Rightarrow>
                         Inr (target_path, True, fs', lg @ [(INFO, ''Created backup: '' @ backup_path)])
                     | (Some ex, fs') \<Rightarrow>
                         Inr (target_path, True, fs',
                              lg @ [(WARNING, ''Failed to create backup: '' @ backup_path)]))
                  else Inr (target_path, True, fs, lg)
             else
               (case OVERRIDE_PATH e of
                  None \<Rightarrow> Inl (TypeError ''expected str, bytes or os.PathLike object, not NoneType'')
                | Some override \<Rightarrow> Inr (path_join sys override video, False, fs, lg))
         | None \<Rightarrow>
             (case OVERRIDE_PATH e of
                None \<Rightarrow> Inl (TypeError ''expected str, bytes or os.PathLike object, not NoneType'')
              | Some override \<Rightarrow> Inr (path_join sys override video, False, fs, lg))))"

text \<open>The removal of what is at the target path; a failure is logged and ignored.\<close>

definition remove_existing :: "'fs os \<Rightarrow> string \<Rightarrow> 'fs \<times> log \<Rightarrow> 'fs \<times> log" where
  "remove_existing sys target_path w =
     (case w of (fs, lg) \<Rightarrow>
        if path_islink sys fs target_path \<or> path_exists sys fs target_path then
          (case os_remove sys fs target_path of
             (None, fs') \<Rightarrow> (fs', lg)
           | (Some ex, fs') \<Rightarrow>
               (fs', lg @ [(WARNING, ''Failed to remove existing file: '' @ target_path)]))
        else (fs, lg))"

text \<open>The branch \<^verbatim>\<open>anim_id == ''\<close>: the backup is restored when there is one.\<close>

definition restore_default :: "'fs os \<Rightarrow> bool \<Rightarrow> string \<Rightarrow> 'fs \<times> log \<Rightarrow> 'fs \<times> log" where
  "restore_default sys use_steamui target_path w =
     (case w of (fs, lg) \<Rightarrow>
        if use_steamui then
          let backup_path = target_path @ ''.backup''
          in if path_exists sys fs backup_path then
               (case copy2 sys fs backup_path target_path of
                  (None, fs') \<Rightarrow> (fs', lg @ [(INFO, ''Restored from backup: '' @ target_path)])
                | (Some ex, fs') \<Rightarrow>
                    (fs', lg @ [(ERROR, ''Failed to restore backup: '' @ backup_path)]))
             else (fs, lg)
        else (fs, lg))"

text \<open>
  The nested \<^verbatim>\<open>for ... else\<close> loops that set \<^verbatim>\<open>path\<close>: the downloads, then the
  custom animations, then the local animations; each loop stops at its first entry
  with the id. The result \<open>Inr None\<close> is \<^verbatim>\<open>path is None\<close>; a custom entry without
  the key \<^verbatim>\<open>'path'\<close> raises a \<^verbatim>\<open>KeyError\<close>.
\<close>

definition find_path ::
  "'fs os \<Rightarrow> env \<Rightarrow> config \<Rightarrow> animation list \<Rightarrow> string \<Rightarrow> exn + string option" where
  "find_path sys e cfg local_animations anim_id =
     (case find (\<lambda>anim. a_id anim = anim_id) (downloads cfg) of
        Some anim \<Rightarrow> Inr (Some (path_join sys (DOWNLOADS_PATH e) (anim_id @ ''.webm'')))
      | None \<Rightarrow>
          (case find (\<lambda>anim. a_id anim = anim_id) (custom_animations cfg) of
             Some anim \<Rightarrow>
               (case a_path anim of
                  None \<Rightarrow> Inl (KeyError ''path'')
                | Some p \<Rightarrow> Inr (Some p))
           | None \<Rightarrow>
               (case find (\<lambda>anim. a_id anim = anim_id) local_animations of
                  Some anim \<Rightarrow> Inr (Some (path_join sys (ANIMATIONS_PATH e) anim_id))
                | None \<Rightarrow> Inr None)))"

text \<open>
  The resolution step as a whole, with the check
  \<^verbatim>\<open>if path is None or not os.path.exists(path)\<close>: the path, or the exception raised.
\<close>

definition resolve ::
  "'fs os \<Rightarrow> env \<Rightarrow> config \<Rightarrow> animation list \<Rightarrow> string \<Rightarrow> 'fs \<times> log \<Rightarrow>
     (exn option \<times> 'fs \<times> log) + string" where
  "resolve sys e cfg local_animations anim_id w =
     (case find_path sys e cfg local_animations anim_id of
        Inl ex \<Rightarrow> Inl (Some ex, fst w, snd w)
      | Inr None \<Rightarrow> Inl (raise_and_log (''Failed to find animation for: '' @ anim_id) None w)
      | Inr (Some p) \<Rightarrow>
          if \<not> path_exists sys (fst w) p
          then Inl (raise_and_log (''Failed to find animation for: '' @ anim_id) None w)
          else Inr p)"

text \<open>
  The last step: \<^verbatim>\<open>os.symlink\<close>, whose \<^verbatim>\<open>OSError\<close> or \<^verbatim>\<open>NotImplementedError\<close> is
  caught; the copy is tried under the test
  \<^verbatim>\<open>platform.system() == 'Windows' or use_steamui\<close> only.
\<close>

definition caught_by_symlink_handler :: "exn \<Rightarrow> bool" where
  "caught_by_symlink_handler ex =
     (case ex of OSError m \<Rightarrow> True | NotImplementedError \<Rightarrow> True | _ \<Rightarrow> False)"

definition link_or_copy ::
  "'fs os \<Rightarrow> env \<Rightarrow> bool \<Rightarrow> string \<Rightarrow> string \<Rightarrow> 'fs \<times> log \<Rightarrow> exn option \<times> 'fs \<times> log" where
  "link_or_copy sys e use_steamui path target_path w =
     (case w of (fs, lg) \<Rightarrow>
        (case os_symlink sys fs path target_path of
           (None, fs') \<Rightarrow>
             (None, fs', lg @ [(INFO, ''Created symlink: '' @ target_path @ '' -> '' @ path)])
         | (Some ex, fs') \<Rightarrow>
             if caught_by_symlink_handler ex then
               if system e = ''Windows'' \<or> use_steamui then
                 let lg' = lg @ [(INFO, ''Symlink failed, copying file instead: '' @ path @
                                        '' -> '' @ target_path)]
                 in (case copy2 sys fs' path target_path of
                       (None, fs'') \<Rightarrow> (None, fs'', lg')
                     | (Some copy_error, fs'') \<Rightarrow>
                         raise_and_log
                           (''Failed to copy animation file: '' @ path @ '' -> '' @ target_path)
                           (Some copy_error) (fs'', lg'))
               else
                 raise_and_log (''Failed to create symlink: '' @ path @ '' -> '' @ target_path)
                   (Some ex) (fs', lg)
             else (Some ex, fs', lg)))"

definition apply_animation ::
  "'fs os \<Rightarrow> env \<Rightarrow> config \<Rightarrow> animation list \<Rightarrow> string \<Rightarrow> string \<Rightarrow> 'fs \<times> log \<Rightarrow>
     exn option \<times> 'fs \<times> log" where
  "apply_animation sys e cfg local_animations video anim_id w =
     (case (case find_video_type e video of
              Some video_type \<Rightarrow>
                if video_type \<noteq> [] \<and> \<not> is_video_supported e video_type then Some video_type
                else None
            | None \<Rightarrow> None) of
        Some video_type \<Rightarrow>
          (None, fst w,
           snd w @ [(INFO, ''Skipping '' @ video_type @ '' animation on '' @ system e @
                           '' (not supported)'')])
      | None \<Rightarrow>
          (case select_target sys e video w of
             Inl ex \<Rightarrow> (Some ex, fst w, snd w)
           | Inr (target_path, use_steamui, w1) \<Rightarrow>
               let w2 = remove_existing sys target_path w1
               in if anim_id = [] then
                    (case restore_default sys use_steamui target_path w2 of
                       (fs3, lg3) \<Rightarrow> (None, fs3, lg3))
                  else
                    (case resolve sys e cfg local_animations anim_id w2 of
                       Inl raised \<Rightarrow> raised
                     | Inr path \<Rightarrow> link_or_copy sys e use_steamui path target_path w2)))"

text \<open>
  \<^verbatim>\<open>apply_animations\<close>: the loop over \<^verbatim>\<open>range(3)\<close>. Nothing in it catches, so an
  exception of one round ends the loop.
\<close>

fun apply_loop ::
  "'fs os \<Rightarrow> env \<Rightarrow> config \<Rightarrow> animation list \<Rightarrow> nat list \<Rightarrow> 'fs \<times> log \<Rightarrow>
     exn option \<times> 'fs \<times> log" where
  "apply_loop sys e cfg local_animations [] w = (None, fst w, snd w)"
| "apply_loop sys e cfg local_animations (i # rest) w =
     (case config_get cfg (VIDEO_TYPES ! i) of
        None \<Rightarrow> (Some (KeyError (VIDEO_TYPES ! i)), fst w, snd w)
      | Some anim_id \<Rightarrow>
          (case apply_animation sys e cfg local_animations (VIDEOS_NAMES e ! i) anim_id w of
             (None, w') \<Rightarrow> apply_loop sys e cfg local_animations rest w'
           | (Some ex, w') \<Rightarrow> (Some ex, w')))"

definition apply_animations ::
  "'fs os \<Rightarrow> env \<Rightarrow> config \<Rightarrow> animation list \<Rightarrow> 'fs \<times> log \<Rightarrow> exn option \<times> 'fs \<times> log" where
  "apply_animations sys e cfg local_animations w =
     apply_loop sys e cfg local_animations [0..<3] w"

section \<open>A small file system, for concrete runs\<close>

text \<open>
  An implementation of the interface \<open>'fs os\<close> on which the definitions can be
  evaluated: the state is the list of the paths that exist, \<open>may_link\<close> says
  whether the platform lets the process create symbolic links (otherwise
  \<^verbatim>\<open>os.symlink\<close> raises an \<^verbatim>\<open>OSError\<close>), \<open>dirs\<close> is the listing of the animations
  directory and \<open>configs\<close> gives what loading each per-directory config returns.
  Copying a file that is not there raises an \<^verbatim>\<open>OSError\<close>.
\<close>

definition sim_os ::
  "bool \<Rightarrow> string list \<Rightarrow> (string \<times> (exn + json)) list \<Rightarrow> (string list) os" where
  "sim_os may_link dirs configs =
     \<lparr>path_join = (\<lambda>a b. a @ ''/'' @ b),
      path_exists = (\<lambda>fs p. p \<in> set fs),
      path_islink = (\<lambda>fs p. False),
      os_remove = (\<lambda>fs p. (None, removeAll p fs)),
      os_symlink = (\<lambda>fs src dst.
         if may_link then (None, dst # fs) else (Some (OSError ''Operation not permitted''), fs)),
      copy2 = (\<lambda>fs src dst.
         if src \<in> set fs then (None, dst # fs) else (Some (OSError ''No such file''), fs)),
      walk_dirs = (\<lambda>fs p. Inr dirs),
      load_json = (\<lambda>fs p.
         case map_of configs p of
           Some r \<Rightarrow> r
         | None \<Rightarrow> Inl (OSError ''No such file'')),
      dump_config = (\<lambda>fs p c. (None, p # fs)),
      dump_set = (\<lambda>fs p s. (None, p # fs))\<rparr>"

definition deck :: env where
  "deck =
     \<lparr>system = ''Linux'',
      OVERRIDE_PATH = Some ''/steam/config/uioverrides/movies'',
      STEAMUI_MOVIES_PATH = Some ''/steam/steamui/movies'',
      CONFIG_PATH = ''/settings/config.json'',
      ANIMATIONS_PATH = ''/run/animations'',
      DOWNLOADS_PATH = ''/run/downloads''\<rparr>"

definition windows_pc :: env where
  "windows_pc = deck\<lparr>system := ''Windows''\<rparr>"

definition empty_config :: config where
  "empty_config =
     \<lparr>boot = [], suspend = [], throbber = [], randomize = [], current_set = [],
      downloads = [], custom_animations = [], custom_sets = [], shuffle_exclusions = [],
      force_ipv4 = False\<rparr>"

definition local_anim :: "string \<Rightarrow> string \<Rightarrow> animation" where
  "local_anim ident tgt =
     \<lparr>a_id = ident, a_name = ident, a_target = tgt, a_path = None, a_meta = None\<rparr>"

definition custom_anim :: "string \<Rightarrow> string \<Rightarrow> string \<Rightarrow> animation" where
  "custom_anim ident tgt file =
     \<lparr>a_id = ident, a_name = ident, a_target = tgt, a_path = Some file, a_meta = None\<rparr>"

definition plain_set :: "string \<Rightarrow> bool \<Rightarrow> anim_set" where
  "plain_set ident en =
     \<lparr>s_id = ident, enabled = en, s_boot = Some ''deck_startup.webm'', s_suspend = Some [],
      s_throbber = Some [], enable = None\<rparr>"

text \<open>
  Example states: configs, the paths on disk, network responses and a scan whose
  directory \<open>a\<close> holds a config file that does not parse.
\<close>

definition shuffle_example :: config where
  "shuffle_example =
     empty_config
       \<lparr>boot := ''old'',
        downloads := [local_anim ''d1'' ''suspend'', local_anim ''d2'' ''suspend''],
        custom_animations := [custom_anim ''c1'' ''suspend'' ''/home/deck/c1.webm''],
        shuffle_exclusions := [''d2'']\<rparr>"

definition store_example :: "config \<times> string list \<times> log" where
  "store_example =
     (empty_config
        \<lparr>custom_sets := [plain_set ''x'' False, plain_set ''y'' True],
         custom_animations := [custom_anim ''c1'' ''boot'' ''/home/deck/c1.webm'']\<rparr>,
      [], [])"

definition busy :: outcome where
  "busy = Response 503 (Inl (Exception ''Expecting value''))"

definition boot_post :: post where
  "boot_post =
     \<lparr>p_id = ''p1'', p_title = ''Spinner'', p_thumbnail = ''t.png'', p_video = ''v.webm'',
      p_steam_name = ''deckuser'', p_content = ''A boot animation'',
      p_updated_at = ''2024-01-01'', p_url = ''https://steamdeckrepo.com/post/p1'',
      p_likes = 3, p_downloads = 10, p_type = ''boot_video''\<rparr>"

definition pools_example :: config where
  "pools_example =
     empty_config
       \<lparr>boot := ''missing'',
        suspend := ''d1'',
        downloads := [local_anim ''d1'' ''suspend''],
        custom_animations :=
          [custom_anim ''c1'' ''boot'' ''/home/deck/c1.webm'',
           custom_anim ''d1'' ''boot'' ''/home/deck/other.webm'']\<rparr>"

definition disk_example :: "string list" where
  "disk_example = [''/run/downloads/d1.webm'', ''/run/animations/a/deck_startup.webm'']"

definition idle_example :: config where
  "idle_example = pools_example\<lparr>boot := []\<rparr>"

definition stale_example :: config where
  "stale_example = pools_example\<lparr>boot := [], suspend := ''missing''\<rparr>"

definition scan_os :: "(string list) os" where
  "scan_os =
     sim_os True [''a'', ''b'']
       [(''/run/animations/a/config.json'', Inl (Exception ''Expecting value''))]"

definition scan_disk :: "string list" where
  "scan_disk =
     [''/run/animations/a/config.json'', ''/run/animations/a/deck_startup.webm'',
      ''/run/animations/b/steam_os_suspend.webm'']"

definition abort_os :: "(string list) os" where
  "abort_os =
     sim_os True [''a'', ''n'', ''b'']
       [(''/run/animations/a/config.json'', Inl (Exception ''Expecting value'')),
        (''/run/animations/n/config.json'', Inr (JNumber 5))]"

definition abort_disk :: "string list" where
  "abort_disk = ''/run/animations/n/config.json'' # scan_disk"

section \<open>Properties of the randomizer\<close>

lemma upt3: "[0..<3] = [0, Suc 0, 2]"
  by (simp add: upt_rec numeral_eq_Suc)

lemma lt3_cases: "i < 3 \<Longrightarrow> i = 0 \<or> i = Suc 0 \<or> i = 2"
  by arith

lemma randint_range: "0 < n \<Longrightarrow> randint 0 (n - 1) r < n"
  by (simp add: randint_def)

lemma pool_config_set: "pool la (config_set c k v) i = pool la c i"
  by (simp add: pool_def config_set_def)

lemma pool_randomize_slot: "pool la (randomize_slot la rnd j c) i = pool la c i"
  by (simp add: randomize_slot_def Let_def pool_config_set)

lemma config_get_set_same:
  "i < 3 \<Longrightarrow> config_get (config_set c (VIDEO_TYPES ! i) v) (VIDEO_TYPES ! i) = Some v"
  by (auto dest!: lt3_cases simp: config_get_def config_set_def VIDEO_TYPES_def)

lemma config_get_set_other:
  "i < 3 \<Longrightarrow> j < 3 \<Longrightarrow> i \<noteq> j \<Longrightarrow>
     config_get (config_set c (VIDEO_TYPES ! j) v) (VIDEO_TYPES ! i) = config_get c (VIDEO_TYPES ! i)"
  by (auto dest!: lt3_cases simp: config_get_def config_set_def VIDEO_TYPES_def)

lemma config_get_current_set: "config_get (c\<lparr>current_set := v\<rparr>) k = config_get c k"
  by (simp add: config_get_def)

lemma randomize_slot_other:
  "i < 3 \<Longrightarrow> j < 3 \<Longrightarrow> i \<noteq> j \<Longrightarrow>
     config_get (randomize_slot la rnd j c) (VIDEO_TYPES ! i) = config_get c (VIDEO_TYPES ! i)"
  by (simp add: randomize_slot_def Let_def config_get_set_other)

lemma randomize_slot_value:
  "i < 3 \<Longrightarrow>
     config_get (randomize_slot la rnd i c) (VIDEO_TYPES ! i) =
       (if pool la c i \<noteq> []
        then Some (a_id (pool la c i ! randint 0 (length (pool la c i) - 1) (rnd i)))
        else config_get c (VIDEO_TYPES ! i))"
  by (simp add: randomize_slot_def Let_def config_get_set_same)

text \<open>
  What \<^verbatim>\<open>randomize_all\<close> leaves in a slot: the round of the slot alone decides it,
  the other two rounds write other keys and leave the pools as they are.
\<close>

lemma randomize_all_value:
  assumes "i < 3"
  shows "config_get (randomize_all la rnd c) (VIDEO_TYPES ! i) =
       (if pool la c i \<noteq> []
        then Some (a_id (pool la c i ! randint 0 (length (pool la c i) - 1) (rnd i)))
        else config_get c (VIDEO_TYPES ! i))"
proof -
  have "i = 0 \<or> i = Suc 0 \<or> i = 2" using assms by (rule lt3_cases)
  then show ?thesis
  proof (elim disjE)
    assume i: "i = 0"
    show ?thesis
      unfolding randomize_all_def upt3 i
      by (simp add: config_get_current_set randomize_slot_other randomize_slot_value)
  next
    assume i: "i = Suc 0"
    show ?thesis
      unfolding randomize_all_def upt3 i
      by (simp add: config_get_current_set randomize_slot_other randomize_slot_value
            pool_randomize_slot)
  next
    assume i: "i = 2"
    show ?thesis
      unfolding randomize_all_def upt3 i
      by (simp add: config_get_current_set randomize_slot_other randomize_slot_value
            pool_randomize_slot)
  qed
qed

lemma pool_pick:
  assumes "pool la c i \<noteq> []"
  shows "pool la c i ! randint 0 (length (pool la c i) - 1) r \<in> set (pool la c i)"
proof -
  have "0 < length (pool la c i)" using assms by simp
  then have "randint 0 (length (pool la c i) - 1) r < length (pool la c i)"
    by (rule randint_range)
  then show ?thesis by (rule nth_mem)
qed

lemma pool_member:
  "a \<in> set (pool la c i) \<Longrightarrow>
     a \<in> set (la @ downloads c @ custom_animations c) \<and>
     a_target a = VIDEO_TARGETS ! i \<and> a_id a \<notin> set (shuffle_exclusions c)"
  by (auto simp: pool_def)

text \<open>
  C3, as the claim states it, fails: with an empty pool for the boot slot,
  \<^verbatim>\<open>randomize_all\<close> does not clear the slot, the old selection stays.
\<close>

theorem randomize_all_empty_pool_counterexample:
  "pool [] (empty_config\<lparr>boot := ''a/deck_startup.webm''\<rparr>) 0 = [] \<and>
   config_get (randomize_all [] (\<lambda>i. 0) (empty_config\<lparr>boot := ''a/deck_startup.webm''\<rparr>))
     (VIDEO_TYPES ! 0) = Some ''a/deck_startup.webm'' \<and>
   config_get (randomize_all [] (\<lambda>i. 0) (empty_config\<lparr>boot := ''a/deck_startup.webm''\<rparr>))
     (VIDEO_TYPES ! 0) \<noteq> Some []"
  by (simp add: randomize_all_def upt3 randomize_slot_def pool_def empty_config_def
        config_get_def VIDEO_TYPES_def)

lemma randomize_all_current_set: "current_set (randomize_all la rnd c) = []"
  by (simp add: randomize_all_def)

text \<open>
  C3, amended: for every slot (index \<open>i\<close> of \<^verbatim>\<open>VIDEO_TYPES\<close>) whose eligible pool
  (the local, downloaded and custom entries with the slot's target, minus the shuffle
  exclusions) is empty, \<^verbatim>\<open>randomize_all\<close> leaves the slot's selection unchanged: the
  slot keeps the identifier it held before the call and is not cleared to the empty
  string. What the call sets to the empty string is \<^verbatim>\<open>current_set\<close>.
\<close>

theorem randomize_all_empty_pool_unchanged:
  "i < 3 \<Longrightarrow> pool la c i = [] \<Longrightarrow>
     config_get (randomize_all la rnd c) (VIDEO_TYPES ! i) = config_get c (VIDEO_TYPES ! i) \<and>
     current_set (randomize_all la rnd c) = []"
  by (simp add: randomize_all_value randomize_all_current_set)

theorem randomize_all_empty_pool_unchanged_witness:
  "(1::nat) < 3 \<and>
   pool [local_anim ''a/deck_startup.webm'' ''boot'']
     (empty_config\<lparr>suspend := ''old'', current_set := ''zz''\<rparr>) 1 = [] \<and>
   config_get (randomize_all [local_anim ''a/deck_startup.webm'' ''boot''] (\<lambda>i. 5)
       (empty_config\<lparr>suspend := ''old'', current_set := ''zz''\<rparr>)) (VIDEO_TYPES ! 1)
     = Some ''old'' \<and>
   current_set (randomize_all [local_anim ''a/deck_startup.webm'' ''boot''] (\<lambda>i. 5)
       (empty_config\<lparr>suspend := ''old'', current_set := ''zz''\<rparr>)) = []"
proof -
  have h1: "(1::nat) < 3" by simp
  have h2: "pool [local_anim ''a/deck_startup.webm'' ''boot'']
      (empty_config\<lparr>suspend := ''old'', current_set := ''zz''\<rparr>) 1 = []"
    by (simp add: pool_def local_anim_def empty_config_def VIDEO_TARGETS_def)
  have "config_get (empty_config\<lparr>suspend := ''old'', current_set := ''zz''\<rparr>) (VIDEO_TYPES ! 1)
      = Some ''old''"
    by (simp add: config_get_def VIDEO_TYPES_def)
  with h1 h2 randomize_all_empty_pool_unchanged [OF h1 h2, of "\<lambda>i. 5"] show ?thesis by simp
qed

text \<open>
  C9: for every slot, what \<^verbatim>\<open>randomize_all\<close> leaves in it is either the selection
  that was there (nothing was assigned: the pool was empty) or the id of an entry of
  the local, downloaded and custom animations whose target is the slot's target and
  whose id is not in the shuffle exclusions.
\<close>

theorem randomize_all_selects_eligible:
  assumes "i < 3"
  shows "if pool la c i = []
         then config_get (randomize_all la rnd c) (VIDEO_TYPES ! i) = config_get c (VIDEO_TYPES ! i)
         else (\<exists>anim \<in> set (la @ downloads c @ custom_animations c).
                 config_get (randomize_all la rnd c) (VIDEO_TYPES ! i) = Some (a_id anim) \<and>
                 a_target anim = VIDEO_TARGETS ! i \<and>
                 a_id anim \<notin> set (shuffle_exclusions c))"
proof (cases "pool la c i = []")
  case True
  then show ?thesis using assms by (simp add: randomize_all_value)
next
  case False
  let ?a = "pool la c i ! randint 0 (length (pool la c i) - 1) (rnd i)"
  have "?a \<in> set (pool la c i)" using False by (rule pool_pick)
  then have "?a \<in> set (la @ downloads c @ custom_animations c) \<and>
     a_target ?a = VIDEO_TARGETS ! i \<and> a_id ?a \<notin> set (shuffle_exclusions c)"
    by (rule pool_member)
  moreover have "config_get (randomize_all la rnd c) (VIDEO_TYPES ! i) = Some (a_id ?a)"
    using False assms by (simp add: randomize_all_value)
  ultimately have "\<exists>anim \<in> set (la @ downloads c @ custom_animations c).
                 config_get (randomize_all la rnd c) (VIDEO_TYPES ! i) = Some (a_id anim) \<and>
                 a_target anim = VIDEO_TARGETS ! i \<and>
                 a_id anim \<notin> set (shuffle_exclusions c)"
    by blast
  with False show ?thesis by simp
qed

theorem randomize_all_selects_eligible_witness:
  "(2::nat) < 3 \<and>
   pool [local_anim ''a/deck_startup.webm'' ''boot''] shuffle_example 2 \<noteq> [] \<and>
   (\<exists>anim \<in> set ([local_anim ''a/deck_startup.webm'' ''boot''] @ downloads shuffle_example @
                  custom_animations shuffle_example).
      config_get (randomize_all [local_anim ''a/deck_startup.webm'' ''boot''] (\<lambda>i. 7)
          shuffle_example) (VIDEO_TYPES ! 2) = Some (a_id anim) \<and>
      a_target anim = VIDEO_TARGETS ! 2 \<and>
      a_id anim \<notin> set (shuffle_exclusions shuffle_example))"
proof -
  have h1: "(2::nat) < 3" by simp
  have h2: "pool [local_anim ''a/deck_startup.webm'' ''boot''] shuffle_example 2 \<noteq> []"
    by (simp add: pool_def local_anim_def custom_anim_def shuffle_example_def empty_config_def
          VIDEO_TARGETS_def)
  from h2 randomize_all_selects_eligible [OF h1,
      of "[local_anim ''a/deck_startup.webm'' ''boot'']" shuffle_example "\<lambda>i. 7"]
  have "\<exists>anim \<in> set ([local_anim ''a/deck_startup.webm'' ''boot''] @ downloads shuffle_example @
                  custom_animations shuffle_example).
      config_get (randomize_all [local_anim ''a/deck_startup.webm'' ''boot''] (\<lambda>i. 7)
          shuffle_example) (VIDEO_TYPES ! 2) = Some (a_id anim) \<and>
      a_target anim = VIDEO_TARGETS ! 2 \<and>
      a_id anim \<notin> set (shuffle_exclusions shuffle_example)"
    by simp
  with h1 h2 show ?thesis by blast
qed

lemma randomize_current_set_empty:
  "get_active_sets ls cfg = [] \<Longrightarrow>
     randomize_current_set ls r cfg =
       cfg\<lparr>current_set := [], boot := [], suspend := [], throbber := []\<rparr>"
  by (simp add: randomize_current_set_def upt3 config_set_def VIDEO_TYPES_def)

lemma set_slot_from_eq:
  "set_slot_from new_set i c = config_set c (VIDEO_TYPES ! i) (slot_of_set new_set i)"
  by (simp add: set_slot_from_def slot_of_set_def split: option.splits)

lemma fold_set_slot_from:
  "fold (set_slot_from new_set) [0..<3] c =
     c\<lparr>boot := slot_of_set new_set 0, suspend := slot_of_set new_set 1,
       throbber := slot_of_set new_set 2\<rparr>"
  by (simp add: upt3 set_slot_from_eq config_set_def VIDEO_TYPES_def)

lemma active_pick:
  assumes "get_active_sets ls cfg \<noteq> []"
  shows "get_active_sets ls cfg ! randint 0 (length (get_active_sets ls cfg) - 1) r
           \<in> set (get_active_sets ls cfg)"
proof -
  have "0 < length (get_active_sets ls cfg)" using assms by simp
  then have "randint 0 (length (get_active_sets ls cfg) - 1) r < length (get_active_sets ls cfg)"
    by (rule randint_range)
  then show ?thesis by (rule nth_mem)
qed

lemma randomize_current_set_nonempty:
  assumes "get_active_sets ls cfg \<noteq> []"
  shows "\<exists>new_set \<in> set (ls @ custom_sets cfg). enabled new_set \<and>
     randomize_current_set ls r cfg =
       cfg\<lparr>current_set := s_id new_set, boot := slot_of_set new_set 0,
           suspend := slot_of_set new_set 1, throbber := slot_of_set new_set 2\<rparr>"
proof -
  let ?s = "get_active_sets ls cfg ! randint 0 (length (get_active_sets ls cfg) - 1) r"
  have "?s \<in> set (get_active_sets ls cfg)" using assms by (rule active_pick)
  then have mem: "?s \<in> set (ls @ custom_sets cfg)" and en: "enabled ?s"
    by (auto simp: get_active_sets_def)
  have "randomize_current_set ls r cfg =
       cfg\<lparr>current_set := s_id ?s, boot := slot_of_set ?s 0,
           suspend := slot_of_set ?s 1, throbber := slot_of_set ?s 2\<rparr>"
    using assms by (simp add: randomize_current_set_def Let_def fold_set_slot_from)
  with mem en show ?thesis by blast
qed

text \<open>
  C2, as the claim states it, fails: with no enabled set, \<^verbatim>\<open>randomize_current_set\<close>
  does not leave the selection as it was, it empties \<^verbatim>\<open>current_set\<close> and the slots.
\<close>

theorem randomize_current_set_unchanged_counterexample:
  "get_active_sets [plain_set ''a'' False]
     (empty_config\<lparr>boot := ''a/deck_startup.webm'', current_set := ''a''\<rparr>) = [] \<and>
   boot (randomize_current_set [plain_set ''a'' False] 0
     (empty_config\<lparr>boot := ''a/deck_startup.webm'', current_set := ''a''\<rparr>)) = [] \<and>
   boot (empty_config\<lparr>boot := ''a/deck_startup.webm'', current_set := ''a''\<rparr>)
     = ''a/deck_startup.webm'' \<and>
   current_set (randomize_current_set [plain_set ''a'' False] 0
     (empty_config\<lparr>boot := ''a/deck_startup.webm'', current_set := ''a''\<rparr>)) = [] \<and>
   current_set (empty_config\<lparr>boot := ''a/deck_startup.webm'', current_set := ''a''\<rparr>) = ''a''"
  by (simp add: randomize_current_set_def get_active_sets_def plain_set_def empty_config_def
        upt3 config_set_def VIDEO_TYPES_def)

text \<open>
  C2, amended: in every state in which the scanned and custom sets hold no enabled
  set, \<^verbatim>\<open>randomize_current_set\<close> clears the selection (\<^verbatim>\<open>current_set\<close> and the
  three slots become the empty string, the other keys stay); and whenever there is an
  enabled set, the set it chooses is one of the scanned and custom sets with
  \<^verbatim>\<open>enabled\<close> true, \<^verbatim>\<open>current_set\<close> is its id and the slots are built from its
  filenames.
\<close>

theorem randomize_current_set_selection:
  "(get_active_sets ls cfg = [] \<longrightarrow>
      randomize_current_set ls r cfg =
        cfg\<lparr>current_set := [], boot := [], suspend := [], throbber := []\<rparr>) \<and>
   (get_active_sets ls cfg \<noteq> [] \<longrightarrow>
      (\<exists>new_set \<in> set (ls @ custom_sets cfg). enabled new_set \<and>
         randomize_current_set ls r cfg =
           cfg\<lparr>current_set := s_id new_set, boot := slot_of_set new_set 0,
               suspend := slot_of_set new_set 1, throbber := slot_of_set new_set 2\<rparr>))"
  using randomize_current_set_empty randomize_current_set_nonempty by blast

theorem randomize_current_set_selection_witness:
  "get_active_sets [] (empty_config\<lparr>suspend := ''old''\<rparr>) = [] \<and>
   suspend (randomize_current_set [] 3 (empty_config\<lparr>suspend := ''old''\<rparr>)) = [] \<and>
   get_active_sets [plain_set ''a'' False] (empty_config\<lparr>custom_sets := [plain_set ''b'' True]\<rparr>) \<noteq> [] \<and>
   (\<exists>new_set \<in> set ([plain_set ''a'' False] @
         custom_sets (empty_config\<lparr>custom_sets := [plain_set ''b'' True]\<rparr>)).
      enabled new_set \<and>
      current_set (randomize_current_set [plain_set ''a'' False] 3
          (empty_config\<lparr>custom_sets := [plain_set ''b'' True]\<rparr>)) = s_id new_set)"
proof -
  have h1: "get_active_sets [] (empty_config\<lparr>suspend := ''old''\<rparr>) = []"
    by (simp add: get_active_sets_def empty_config_def)
  have h2: "get_active_sets [plain_set ''a'' False]
      (empty_config\<lparr>custom_sets := [plain_set ''b'' True]\<rparr>) \<noteq> []"
    by (simp add: get_active_sets_def empty_config_def plain_set_def)
  from h1 randomize_current_set_selection [of "[]" "empty_config\<lparr>suspend := ''old''\<rparr>" 3]
  have c1: "suspend (randomize_current_set [] 3 (empty_config\<lparr>suspend := ''old''\<rparr>)) = []"
    by simp
  from h2 randomize_current_set_selection [of "[plain_set ''a'' False]"
      "empty_config\<lparr>custom_sets := [plain_set ''b'' True]\<rparr>" 3]
  obtain new_set where
    "new_set \<in> set ([plain_set ''a'' False] @
         custom_sets (empty_config\<lparr>custom_sets := [plain_set ''b'' True]\<rparr>))"
    "enabled new_set"
    "randomize_current_set [plain_set ''a'' False] 3
          (empty_config\<lparr>custom_sets := [plain_set ''b'' True]\<rparr>) =
       (empty_config\<lparr>custom_sets := [plain_set ''b'' True]\<rparr>)
         \<lparr>current_set := s_id new_set, boot := slot_of_set new_set 0,
           suspend := slot_of_set new_set 1, throbber := slot_of_set new_set 2\<rparr>"
    by blast
  then have "\<exists>new_set \<in> set ([plain_set ''a'' False] @
         custom_sets (empty_config\<lparr>custom_sets := [plain_set ''b'' True]\<rparr>)).
      enabled new_set \<and>
      current_set (randomize_current_set [plain_set ''a'' False] 3
          (empty_config\<lparr>custom_sets := [plain_set ''b'' True]\<rparr>)) = s_id new_set"
    by auto
  with h1 h2 c1 show ?thesis by blast
qed

section \<open>Properties of the custom stores\<close>

lemma saveCustomSet_config:
  "fst (snd (saveCustomSet sys e set_entry st)) =
     (fst st)\<lparr>custom_sets :=
        filter (\<lambda>entry. s_id entry \<noteq> s_id set_entry) (custom_sets (fst st)) @ [set_entry]\<rparr>"
  by (cases st)
     (simp add: saveCustomSet_def remove_custom_set_def Let_def split: prod.splits option.splits)

lemma saveCustomAnimation_config:
  "fst (snd (saveCustomAnimation sys e anim_entry st)) =
     (fst st)\<lparr>custom_animations :=
        filter (\<lambda>anim. a_id anim \<noteq> a_id anim_entry) (custom_animations (fst st)) @ [anim_entry]\<rparr>"
  by (cases st)
     (simp add: saveCustomAnimation_def remove_custom_animation_def Let_def
        split: prod.splits option.splits)

lemma saveCustomSet_custom_sets:
  "custom_sets (fst (snd (saveCustomSet sys e set_entry st))) =
     filter (\<lambda>entry. s_id entry \<noteq> s_id set_entry) (custom_sets (fst st)) @ [set_entry]"
  by (simp add: saveCustomSet_config)

lemma saveCustomAnimation_custom_animations:
  "custom_animations (fst (snd (saveCustomAnimation sys e anim_entry st))) =
     filter (\<lambda>anim. a_id anim \<noteq> a_id anim_entry) (custom_animations (fst st)) @ [anim_entry]"
  by (simp add: saveCustomAnimation_config)

lemma count_after_upsert:
  "length (filter (\<lambda>x. f x = f y) (filter (\<lambda>x. f x \<noteq> f y) xs @ [y])) = 1"
  by (induction xs) auto

lemma distinct_after_upsert:
  "distinct (map f xs) \<Longrightarrow> distinct (map f (filter (\<lambda>x. f x \<noteq> f y) xs @ [y]))"
  by (induction xs) auto

text \<open>
  C10: \<^verbatim>\<open>saveCustomSet\<close> and \<^verbatim>\<open>saveCustomAnimation\<close> are upserts. Whether or not
  saving the config raises, the store in memory afterwards is the old store without
  every entry of the new entry's id, followed by the new entry; so exactly one entry
  has that id, a store whose ids were pairwise distinct stays so, and saving a second
  entry of the same id leaves one entry of that id again.
\<close>

theorem save_custom_is_upsert:
  "custom_sets (fst (snd (saveCustomSet sys e set_entry st))) =
     filter (\<lambda>entry. s_id entry \<noteq> s_id set_entry) (custom_sets (fst st)) @ [set_entry] \<and>
   length (filter (\<lambda>entry. s_id entry = s_id set_entry)
     (custom_sets (fst (snd (saveCustomSet sys e set_entry st))))) = 1 \<and>
   (distinct (map s_id (custom_sets (fst st))) \<longrightarrow>
      distinct (map s_id (custom_sets (fst (snd (saveCustomSet sys e set_entry st)))))) \<and>
   (s_id set_again = s_id set_entry \<longrightarrow>
      length (filter (\<lambda>entry. s_id entry = s_id set_entry)
        (custom_sets (fst (snd (saveCustomSet sys e set_again
           (snd (saveCustomSet sys e set_entry st))))))) = 1) \<and>
   custom_animations (fst (snd (saveCustomAnimation sys e anim_entry st2))) =
     filter (\<lambda>anim. a_id anim \<noteq> a_id anim_entry) (custom_animations (fst st2)) @ [anim_entry] \<and>
   length (filter (\<lambda>anim. a_id anim = a_id anim_entry)
     (custom_animations (fst (snd (saveCustomAnimation sys e anim_entry st2))))) = 1 \<and>
   (distinct (map a_id (custom_animations (fst st2))) \<longrightarrow>
      distinct (map a_id (custom_animations (fst (snd (saveCustomAnimation sys e anim_entry st2)))))) \<and>
   (a_id anim_again = a_id anim_entry \<longrightarrow>
      length (filter (\<lambda>anim. a_id anim = a_id anim_entry)
        (custom_animations (fst (snd (saveCustomAnimation sys e anim_again
           (snd (saveCustomAnimation sys e anim_entry st2))))))) = 1)"
proof (intro conjI impI)
  show "custom_sets (fst (snd (saveCustomSet sys e set_entry st))) =
     filter (\<lambda>entry. s_id entry \<noteq> s_id set_entry) (custom_sets (fst st)) @ [set_entry]"
    by (rule saveCustomSet_custom_sets)
  show "length (filter (\<lambda>entry. s_id entry = s_id set_entry)
     (custom_sets (fst (snd (saveCustomSet sys e set_entry st))))) = 1"
    by (simp only: saveCustomSet_custom_sets count_after_upsert)
  show "distinct (map s_id (custom_sets (fst (snd (saveCustomSet sys e set_entry st)))))"
    if "distinct (map s_id (custom_sets (fst st)))"
    using that by (simp only: saveCustomSet_custom_sets distinct_after_upsert)
  show "length (filter (\<lambda>entry. s_id entry = s_id set_entry)
        (custom_sets (fst (snd (saveCustomSet sys e set_again
           (snd (saveCustomSet sys e set_entry st))))))) = 1"
    if "s_id set_again = s_id set_entry"
    using count_after_upsert [of s_id set_again] that
    by (simp only: saveCustomSet_custom_sets [of sys e set_again])
  show "custom_animations (fst (snd (saveCustomAnimation sys e anim_entry st2))) =
     filter (\<lambda>anim. a_id anim \<noteq> a_id anim_entry) (custom_animations (fst st2)) @ [anim_entry]"
    by (rule saveCustomAnimation_custom_animations)
  show "length (filter (\<lambda>anim. a_id anim = a_id anim_entry)
     (custom_animations (fst (snd (saveCustomAnimation sys e anim_entry st2))))) = 1"
    by (simp only: saveCustomAnimation_custom_animations count_after_upsert)
  show "distinct (map a_id (custom_animations (fst (snd (saveCustomAnimation sys e anim_entry st2)))))"
    if "distinct (map a_id (custom_animations (fst st2)))"
    using that by (simp only: saveCustomAnimation_custom_animations distinct_after_upsert)
  show "length (filter (\<lambda>anim. a_id anim = a_id anim_entry)
        (custom_animations (fst (snd (saveCustomAnimation sys e anim_again
           (snd (saveCustomAnimation sys e anim_entry st2))))))) = 1"
    if "a_id anim_again = a_id anim_entry"
    using count_after_upsert [of a_id anim_again] that
    by (simp only: saveCustomAnimation_custom_animations [of sys e anim_again])
qed

theorem save_custom_is_upsert_witness:
  "distinct (map s_id (custom_sets (fst store_example))) \<and>
   distinct (map s_id (custom_sets (fst (snd
     (saveCustomSet (sim_os True [] []) deck (plain_set ''x'' True) store_example))))) \<and>
   s_id (plain_set ''x'' False) = s_id (plain_set ''x'' True) \<and>
   length (filter (\<lambda>entry. s_id entry = s_id (plain_set ''x'' True))
     (custom_sets (fst (snd (saveCustomSet (sim_os True [] []) deck (plain_set ''x'' False)
        (snd (saveCustomSet (sim_os True [] []) deck (plain_set ''x'' True) store_example))))))) = 1 \<and>
   distinct (map a_id (custom_animations (fst store_example))) \<and>
   distinct (map a_id (custom_animations (fst (snd
     (saveCustomAnimation (sim_os True [] []) deck (custom_anim ''c1'' ''suspend'' ''/tmp/n.webm'')
        store_example))))) \<and>
   a_id (custom_anim ''c1'' ''boot'' ''/tmp/m.webm'') =
     a_id (custom_anim ''c1'' ''suspend'' ''/tmp/n.webm'') \<and>
   length (filter (\<lambda>anim. a_id anim = a_id (custom_anim ''c1'' ''suspend'' ''/tmp/n.webm''))
     (custom_animations (fst (snd (saveCustomAnimation (sim_os True [] []) deck
        (custom_anim ''c1'' ''boot'' ''/tmp/m.webm'')
        (snd (saveCustomAnimation (sim_os True [] []) deck
           (custom_anim ''c1'' ''suspend'' ''/tmp/n.webm'') store_example))))))) = 1"
proof -
  have h1: "distinct (map s_id (custom_sets (fst store_example)))"
    by (simp add: store_example_def empty_config_def plain_set_def)
  have h2: "s_id (plain_set ''x'' False) = s_id (plain_set ''x'' True)"
    by (simp add: plain_set_def)
  have h3: "distinct (map a_id (custom_animations (fst store_example)))"
    by (simp add: store_example_def empty_config_def custom_anim_def)
  have h4: "a_id (custom_anim ''c1'' ''boot'' ''/tmp/m.webm'') =
     a_id (custom_anim ''c1'' ''suspend'' ''/tmp/n.webm'')"
    by (simp add: custom_anim_def)
  from h1 h2 h3 h4
    save_custom_is_upsert [of "sim_os True [] []" deck "plain_set ''x'' True" store_example
      "plain_set ''x'' False" "custom_anim ''c1'' ''suspend'' ''/tmp/n.webm''" store_example
      "custom_anim ''c1'' ''boot'' ''/tmp/m.webm''"]
  show ?thesis by blast
qed

section \<open>Properties of the catalog refresh\<close>

lemma fetch_loop_requests: "fst (snd (fetch_loop web ks status n lg)) \<le> n + length ks"
proof (induction ks arbitrary: status n lg)
  case Nil
  then show ?case by (simp split: option.splits)
next
  case (Cons k ks)
  show ?case
  proof (cases "web k")
    case (Response st body)
    then show ?thesis
      using Cons [of "Some st" "Suc n"] by (simp split: if_splits)
  next
    case (Failed ex)
    then show ?thesis by simp
  qed
qed

text \<open>
  Rounds whose responses are all retried: the loop goes on with the rest, the last
  status bound, one request counted and one warning logged per round.
\<close>

lemma fetch_loop_retry:
  "\<forall>k \<in> set pre. retryable (web k) \<Longrightarrow>
     fetch_loop web (pre @ rest) status n lg =
       fetch_loop web rest (if pre = [] then status else Some (status_code (web (last pre))))
         (n + length pre)
         (lg @ map (\<lambda>k. (WARNING, ''steamdeckrepo fetch failed, status='' @
                              str_nat (status_code (web k)))) pre)"
proof (induction pre arbitrary: status n lg)
  case Nil
  then show ?case by simp
next
  case (Cons k pre)
  from Cons.prems obtain st body where w: "web k = Response st body" "st \<noteq> 200" "st \<noteq> 429"
    by (cases "web k") auto
  from Cons.prems have "\<forall>k \<in> set pre. retryable (web k)" by simp
  from Cons.IH [OF this] w show ?case by simp
qed

lemma upt_split: "k < n \<Longrightarrow> [0..<n] = [0..<k] @ k # [Suc k..<n]"
  by (metis le_add_diff_inverse less_imp_le_nat upt_add_eq_append upt_conv_Cons zero_le)

lemma get_steamdeckrepo_requests: "fst (snd (get_steamdeckrepo web lg)) \<le> REQUEST_RETRIES"
proof -
  have "fst (snd (fetch_loop web [0..<REQUEST_RETRIES] None 0 lg)) \<le> REQUEST_RETRIES"
    using fetch_loop_requests [of web "[0..<REQUEST_RETRIES]" None 0 lg] by simp
  then show ?thesis
    by (cases "fetch_loop web [0..<REQUEST_RETRIES] None 0 lg")
       (auto simp: get_steamdeckrepo_def split: sum.splits)
qed

lemma get_steamdeckrepo_200:
  assumes "k < 5" "\<forall>j<k. retryable (web j)" "web k = Response 200 (Inr data)"
  shows "fst (get_steamdeckrepo web lg) = Inr (parse_posts data) \<and>
         fst (snd (get_steamdeckrepo web lg)) = Suc k"
proof -
  have "\<forall>j \<in> set [0..<k]. retryable (web j)" using assms(2) by simp
  from fetch_loop_retry [OF this, of "k # [Suc k..<5]" None 0 lg] assms(1,3)
  show ?thesis
    by (simp add: get_steamdeckrepo_def REQUEST_RETRIES_def upt_split [of k 5])
qed

lemma get_steamdeckrepo_429:
  assumes "k < 5" "\<forall>j<k. retryable (web j)" "web k = Response 429 body"
  shows "fst (get_steamdeckrepo web lg) =
           Inl (Exception ''Rate limit exceeded, try again in a minute'') \<and>
         fst (snd (get_steamdeckrepo web lg)) = Suc k"
proof -
  have "\<forall>j \<in> set [0..<k]. retryable (web j)" using assms(2) by simp
  from fetch_loop_retry [OF this, of "k # [Suc k..<5]" None 0 lg] assms(1,3)
  show ?thesis
    by (simp add: get_steamdeckrepo_def REQUEST_RETRIES_def upt_split [of k 5])
qed

lemma get_steamdeckrepo_exhausted:
  assumes "\<forall>j<5. retryable (web j)"
  shows "fst (get_steamdeckrepo web lg) =
           Inl (Exception (''Retry attempts exceeded, status code: '' @
                           str_nat (status_code (web 4)))) \<and>
         fst (snd (get_steamdeckrepo web lg)) = 5"
proof -
  have "\<forall>j \<in> set [0..<5]. retryable (web j)" using assms by simp
  from fetch_loop_retry [OF this, of "[]" None 0 lg]
  show ?thesis
    by (simp add: get_steamdeckrepo_def REQUEST_RETRIES_def)
qed

text \<open>
  C7: the catalog refresh makes at most \<^verbatim>\<open>REQUEST_RETRIES\<close> = 5 requests. When the
  responses before request \<open>k\<close> were all retried (neither 200 nor 429): a 200
  response with a readable body returns the parsed entries at once, request \<open>k\<close>
  being the last; a 429 response raises the rate-limit exception at once, request
  \<open>k\<close> being the last. When all five responses are retried, the exception raised
  is the one for exceeded retries, and its message carries the status of the fifth
  response.
\<close>

theorem catalog_refresh_retry_policy:
  "fst (snd (get_steamdeckrepo web lg)) \<le> REQUEST_RETRIES \<and> REQUEST_RETRIES = 5 \<and>
   (k < 5 \<and> (\<forall>j<k. retryable (web j)) \<and> web k = Response 200 (Inr data) \<longrightarrow>
      fst (get_steamdeckrepo web lg) = Inr (parse_posts data) \<and>
      fst (snd (get_steamdeckrepo web lg)) = Suc k) \<and>
   (k < 5 \<and> (\<forall>j<k. retryable (web j)) \<and> web k = Response 429 body \<longrightarrow>
      fst (get_steamdeckrepo web lg) =
        Inl (Exception ''Rate limit exceeded, try again in a minute'') \<and>
      fst (snd (get_steamdeckrepo web lg)) = Suc k) \<and>
   ((\<forall>j<5. retryable (web j)) \<longrightarrow>
      fst (get_steamdeckrepo web lg) =
        Inl (Exception (''Retry attempts exceeded, status code: '' @
                        str_nat (status_code (web 4)))) \<and>
      fst (snd (get_steamdeckrepo web lg)) = 5)"
proof (intro conjI impI)
  show "fst (snd (get_steamdeckrepo web lg)) \<le> REQUEST_RETRIES"
    by (rule get_steamdeckrepo_requests)
  show "REQUEST_RETRIES = 5" by (simp add: REQUEST_RETRIES_def)
next
  assume h: "k < 5 \<and> (\<forall>j<k. retryable (web j)) \<and> web k = Response 200 (Inr data)"
  then show "fst (get_steamdeckrepo web lg) = Inr (parse_posts data)"
    and "fst (snd (get_steamdeckrepo web lg)) = Suc k"
    using get_steamdeckrepo_200 [of k web data lg] by simp_all
next
  assume h: "k < 5 \<and> (\<forall>j<k. retryable (web j)) \<and> web k = Response 429 body"
  then show "fst (get_steamdeckrepo web lg) =
        Inl (Exception ''Rate limit exceeded, try again in a minute'')"
    and "fst (snd (get_steamdeckrepo web lg)) = Suc k"
    using get_steamdeckrepo_429 [of k web body lg] by simp_all
next
  assume h: "\<forall>j<5. retryable (web j)"
  then show "fst (get_steamdeckrepo web lg) =
        Inl (Exception (''Retry attempts exceeded, status code: '' @
                        str_nat (status_code (web 4))))"
    and "fst (snd (get_steamdeckrepo web lg)) = 5"
    using get_steamdeckrepo_exhausted [of web lg] by simp_all
qed

lemma less_2_retryable: "\<forall>j<2. retryable (serve [busy, busy, r] j)"
  by (auto simp: serve_def busy_def less_Suc_eq numeral_2_eq_2)

lemma less_5_retryable: "\<forall>j<5. retryable (serve [busy, busy, busy, busy, busy] j)"
  by (auto simp: serve_def busy_def less_Suc_eq numeral_eq_Suc)

theorem catalog_refresh_retry_policy_witness:
  "fst (get_steamdeckrepo (serve [busy, busy, Response 429 (Inl (Exception ''Expecting value''))]) [])
     = Inl (Exception ''Rate limit exceeded, try again in a minute'') \<and>
   fst (snd (get_steamdeckrepo
     (serve [busy, busy, Response 429 (Inl (Exception ''Expecting value''))]) [])) = 3 \<and>
   fst (get_steamdeckrepo (serve [busy, busy, busy, busy, busy]) [])
     = Inl (Exception ''Retry attempts exceeded, status code: 503'') \<and>
   fst (snd (get_steamdeckrepo (serve [busy, busy, busy, busy, busy]) [])) = 5 \<and>
   map a_id (projr (fst (get_steamdeckrepo (serve [Response 200 (Inr [boot_post])]) [])))
     = [''p1''] \<and>
   fst (snd (get_steamdeckrepo (serve [Response 200 (Inr [boot_post])]) [])) = 1"
proof -
  have a: "(2::nat) < 5 \<and>
      (\<forall>j<2. retryable (serve [busy, busy, Response 429 (Inl (Exception ''Expecting value''))] j)) \<and>
      serve [busy, busy, Response 429 (Inl (Exception ''Expecting value''))] 2 =
        Response 429 (Inl (Exception ''Expecting value''))"
    using less_2_retryable by (simp add: serve_def)
  have b: "\<forall>j<5. retryable (serve [busy, busy, busy, busy, busy] j)"
    by (rule less_5_retryable)
  have c: "(0::nat) < 5 \<and> (\<forall>j<0. retryable (serve [Response 200 (Inr [boot_post])] j)) \<and>
      serve [Response 200 (Inr [boot_post])] 0 = Response 200 (Inr [boot_post])"
    by (simp add: serve_def)
  have d: "str_nat (status_code (serve [busy, busy, busy, busy, busy] 4)) = ''503''"
    by (simp add: serve_def busy_def str_nat.simps digit_char_def)
  have e: "map a_id (parse_posts [boot_post]) = [''p1'']"
    by (simp add: parse_posts_def entry_of_post_def boot_post_def)
  from a catalog_refresh_retry_policy
    [of "serve [busy, busy, Response 429 (Inl (Exception ''Expecting value''))]" "[]" 2 _
        "Inl (Exception ''Expecting value'')"]
  have r1: "fst (get_steamdeckrepo
        (serve [busy, busy, Response 429 (Inl (Exception ''Expecting value''))]) [])
      = Inl (Exception ''Rate limit exceeded, try again in a minute'') \<and>
    fst (snd (get_steamdeckrepo
      (serve [busy, busy, Response 429 (Inl (Exception ''Expecting value''))]) [])) = 3"
    by simp
  from b d catalog_refresh_retry_policy [of "serve [busy, busy, busy, busy, busy]" "[]"]
  have r2: "fst (get_steamdeckrepo (serve [busy, busy, busy, busy, busy]) [])
      = Inl (Exception ''Retry attempts exceeded, status code: 503'') \<and>
    fst (snd (get_steamdeckrepo (serve [busy, busy, busy, busy, busy]) [])) = 5"
    by simp
  from c e catalog_refresh_retry_policy [of "serve [Response 200 (Inr [boot_post])]" "[]" 0 "[boot_post]"]
  have r3: "map a_id (projr (fst (get_steamdeckrepo (serve [Response 200 (Inr [boot_post])]) [])))
      = [''p1''] \<and>
    fst (snd (get_steamdeckrepo (serve [Response 200 (Inr [boot_post])]) [])) = 1"
    by simp
  from r1 r2 r3 show ?thesis by blast
qed

section \<open>Properties of the resolution\<close>













section \<open>Properties of the activation\<close>

lemmas activation_defs =
  apply_animation_def find_video_type_def VIDEOS_NAMES_def get_video_names_def
  is_video_supported_def VIDEO_TYPES_def select_target_def remove_existing_def
  restore_default_def resolve_def find_path_def raise_and_log_def link_or_copy_def
  caught_by_symlink_handler_def

lemmas example_defs =
  sim_os_def deck_def windows_pc_def disk_example_def pools_example_def empty_config_def
  local_anim_def custom_anim_def idle_example_def stale_example_def

lemma apply_animation_link_step:
  assumes "find_video_type e video = Some vt" "is_video_supported e vt"
    "select_target sys e video w = Inr (target_path, use_steamui, w1)"
    "anim_id \<noteq> []"
    "resolve sys e cfg la anim_id (remove_existing sys target_path w1) = Inr path"
  shows "apply_animation sys e cfg la video anim_id w =
     link_or_copy sys e use_steamui path target_path (remove_existing sys target_path w1)"
  using assms by (simp add: apply_animation_def Let_def)

text \<open>\<^verbatim>\<open>use_steamui\<close> is set on Windows only.\<close>

lemma select_target_use_steamui:
  "select_target sys e video w = Inr (t, use_steamui, w1) \<Longrightarrow> use_steamui \<Longrightarrow>
     system e = ''Windows''"
  by (cases w) (auto simp: select_target_def Let_def split: if_splits option.splits prod.splits)

lemma link_or_copy_failure:
  assumes "os_symlink sys (fst w2) path target_path = (Some ex, fs')"
    "caught_by_symlink_handler ex"
  shows "link_or_copy sys e use_steamui path target_path w2 =
    (if system e = ''Windows'' \<or> use_steamui then
       (case copy2 sys fs' path target_path of
          (None, fs'') \<Rightarrow>
            (None, fs'',
             snd w2 @ [(INFO, ''Symlink failed, copying file instead: '' @ path @
                              '' -> '' @ target_path)])
        | (Some copy_error, fs'') \<Rightarrow>
            (Some copy_error, fs'',
             snd w2 @ [(INFO, ''Symlink failed, copying file instead: '' @ path @
                              '' -> '' @ target_path),
                       (ERROR, ''Failed to copy animation file: '' @ path @
                               '' -> '' @ target_path)]))
     else (Some ex, fs',
           snd w2 @ [(ERROR, ''Failed to create symlink: '' @ path @ '' -> '' @ target_path)]))"
  using assms
  by (cases w2)
     (auto simp: link_or_copy_def raise_and_log_def Let_def split: prod.splits option.splits)

text \<open>
  C6, as the claim states it, fails: on Linux/SteamOS a denied \<^verbatim>\<open>os.symlink\<close> is
  raised for the slot at once. The source exists and a copy of it to the target path
  would succeed, but no copy is made: the target path is not written.
\<close>

theorem symlink_denied_no_copy_counterexample:
  "resolve (sim_os False [] []) deck pools_example [] ''d1'' (disk_example, [])
     = Inr ''/run/downloads/d1.webm'' \<and>
   os_symlink (sim_os False [] []) disk_example ''/run/downloads/d1.webm''
       ''/steam/config/uioverrides/movies/steam_os_suspend.webm''
     = (Some (OSError ''Operation not permitted''), disk_example) \<and>
   fst (copy2 (sim_os False [] []) disk_example ''/run/downloads/d1.webm''
       ''/steam/config/uioverrides/movies/steam_os_suspend.webm'') = None \<and>
   apply_animation (sim_os False [] []) deck pools_example [] ''steam_os_suspend.webm'' ''d1''
       (disk_example, [])
     = (Some (OSError ''Operation not permitted''), disk_example,
        [(ERROR, ''Failed to create symlink: /run/downloads/d1.webm -> /steam/config/uioverrides/movies/steam_os_suspend.webm'')])"
  by (simp add: activation_defs example_defs)

text \<open>
  C6, amended: for every activation of a supported slot with a resolvable identifier
  in which \<^verbatim>\<open>os.symlink\<close> raises an \<^verbatim>\<open>OSError\<close> or a \<^verbatim>\<open>NotImplementedError\<close>: on
  Windows the engine falls back to \<^verbatim>\<open>shutil.copy2\<close> of the resolved source to the
  target path, and only a failure of that copy is raised for the slot (the copy's own
  exception, logged); on every other platform no copy is attempted and the exception
  of \<^verbatim>\<open>os.symlink\<close> is logged and raised for the slot.
\<close>

theorem symlink_failure_fallback:
  assumes "find_video_type e video = Some vt" and "is_video_supported e vt"
    and "select_target sys e video w = Inr (target_path, use_steamui, w1)"
    and "anim_id \<noteq> []"
    and "w2 = remove_existing sys target_path w1"
    and "resolve sys e cfg la anim_id w2 = Inr path"
    and "os_symlink sys (fst w2) path target_path = (Some ex, fs')"
    and "caught_by_symlink_handler ex"
  shows "apply_animation sys e cfg la video anim_id w =
    (if system e = ''Windows'' then
       (case copy2 sys fs' path target_path of
          (None, fs'') \<Rightarrow>
            (None, fs'',
             snd w2 @ [(INFO, ''Symlink failed, copying file instead: '' @ path @
                              '' -> '' @ target_path)])
        | (Some copy_error, fs'') \<Rightarrow>
            (Some copy_error, fs'',
             snd w2 @ [(INFO, ''Symlink failed, copying file instead: '' @ path @
                              '' -> '' @ target_path),
                       (ERROR, ''Failed to copy animation file: '' @ path @
                               '' -> '' @ target_path)]))
     else (Some ex, fs',
           snd w2 @ [(ERROR, ''Failed to create symlink: '' @ path @ '' -> '' @ target_path)]))"
proof -
  have step: "apply_animation sys e cfg la video anim_id w =
      link_or_copy sys e use_steamui path target_path w2"
    using assms(1-6) by (simp add: apply_animation_link_step)
  have "(system e = ''Windows'' \<or> use_steamui) = (system e = ''Windows'')"
    using select_target_use_steamui [OF assms(3)] by blast
  with step link_or_copy_failure [OF assms(7,8), of e use_steamui] show ?thesis
    by simp
qed

theorem symlink_failure_fallback_witness:
  "find_video_type windows_pc ''bigpicture_startup.webm'' = Some ''boot'' \<and>
   is_video_supported windows_pc ''boot'' \<and>
   select_target (sim_os False [] []) windows_pc ''bigpicture_startup.webm'' (disk_example, [])
     = Inr (''/steam/steamui/movies/bigpicture_startup.webm'', True, disk_example, []) \<and>
   ''d1'' \<noteq> [] \<and>
   (disk_example, []) = remove_existing (sim_os False [] [])
      ''/steam/steamui/movies/bigpicture_startup.webm'' (disk_example, []) \<and>
   resolve (sim_os False [] []) windows_pc pools_example [] ''d1'' (disk_example, [])
     = Inr ''/run/downloads/d1.webm'' \<and>
   os_symlink (sim_os False [] []) (fst (disk_example, ([] :: log))) ''/run/downloads/d1.webm''
       ''/steam/steamui/movies/bigpicture_startup.webm''
     = (Some (OSError ''Operation not permitted''), disk_example) \<and>
   caught_by_symlink_handler (OSError ''Operation not permitted'') \<and>
   apply_animation (sim_os False [] []) windows_pc pools_example [] ''bigpicture_startup.webm''
       ''d1'' (disk_example, [])
     = (None, ''/steam/steamui/movies/bigpicture_startup.webm'' # disk_example,
        [(INFO, ''Symlink failed, copying file instead: /run/downloads/d1.webm -> /steam/steamui/movies/bigpicture_startup.webm'')])"
proof -
  have h1: "find_video_type windows_pc ''bigpicture_startup.webm'' = Some ''boot''"
    by (simp add: activation_defs example_defs)
  have h2: "is_video_supported windows_pc ''boot''"
    by (simp add: activation_defs example_defs)
  have h3: "select_target (sim_os False [] []) windows_pc ''bigpicture_startup.webm''
      (disk_example, [])
     = Inr (''/steam/steamui/movies/bigpicture_startup.webm'', True, disk_example, [])"
    by (simp add: activation_defs example_defs)
  have h4: "''d1'' \<noteq> []" by simp
  have h5: "(disk_example, []) = remove_existing (sim_os False [] [])
      ''/steam/steamui/movies/bigpicture_startup.webm'' (disk_example, [])"
    by (simp add: activation_defs example_defs)
  have h6: "resolve (sim_os False [] []) windows_pc pools_example [] ''d1'' (disk_example, [])
     = Inr ''/run/downloads/d1.webm''"
    by (simp add: activation_defs example_defs)
  have h7: "os_symlink (sim_os False [] []) (fst (disk_example, ([] :: log)))
       ''/run/downloads/d1.webm'' ''/steam/steamui/movies/bigpicture_startup.webm''
     = (Some (OSError ''Operation not permitted''), disk_example)"
    by (simp add: example_defs)
  have h8: "caught_by_symlink_handler (OSError ''Operation not permitted'')"
    by (simp add: caught_by_symlink_handler_def)
  have c: "copy2 (sim_os False [] []) disk_example ''/run/downloads/d1.webm''
       ''/steam/steamui/movies/bigpicture_startup.webm''
     = (None, ''/steam/steamui/movies/bigpicture_startup.webm'' # disk_example)"
    by (simp add: example_defs)
  have w: "system windows_pc = ''Windows''"
    by (simp add: example_defs)
  from symlink_failure_fallback [OF h1 h2 h3 h4 h5 h6 h7 h8] c w
  have "apply_animation (sim_os False [] []) windows_pc pools_example []
       ''bigpicture_startup.webm'' ''d1'' (disk_example, [])
     = (None, ''/steam/steamui/movies/bigpicture_startup.webm'' # disk_example,
        [(INFO, ''Symlink failed, copying file instead: /run/downloads/d1.webm -> /steam/steamui/movies/bigpicture_startup.webm'')])"
    by simp
  with h1 h2 h3 h4 h5 h6 h7 h8 show ?thesis by blast
qed

text \<open>The loop of \<^verbatim>\<open>apply_animations\<close>, unrolled.\<close>

lemma apply_animations_unrolled:
  "apply_animations sys e cfg la w =
     (case apply_animation sys e cfg la (VIDEOS_NAMES e ! 0) (boot cfg) w of
        (Some ex, w1) \<Rightarrow> (Some ex, w1)
      | (None, w1) \<Rightarrow>
          (case apply_animation sys e cfg la (VIDEOS_NAMES e ! 1) (suspend cfg) w1 of
             (Some ex, w2) \<Rightarrow> (Some ex, w2)
           | (None, w2) \<Rightarrow>
               apply_animation sys e cfg la (VIDEOS_NAMES e ! 2) (throbber cfg) w2))"
  by (simp add: apply_animations_def upt3 config_get_def VIDEO_TYPES_def
        split: prod.splits option.splits)

text \<open>
  C1, as the claim states it, fails: the boot slot's identifier does not resolve, the
  suspend slot's identifier resolves and its activation alone succeeds and writes the
  suspend target, but \<^verbatim>\<open>apply_animations\<close> raises the boot slot's exception and
  leaves the file system as it was: the suspend slot is not attempted.
\<close>

theorem apply_animations_not_isolated_counterexample:
  "fst (apply_animation (sim_os True [] []) deck pools_example [] (VIDEOS_NAMES deck ! 0)
      (boot pools_example) (disk_example, []))
     = Some (Exception ''Failed to find animation for: missing'') \<and>
   apply_animation (sim_os True [] []) deck pools_example [] (VIDEOS_NAMES deck ! 1)
      (suspend pools_example) (disk_example, [])
     = (None, ''/steam/config/uioverrides/movies/steam_os_suspend.webm'' # disk_example,
        [(INFO, ''Created symlink: /steam/config/uioverrides/movies/steam_os_suspend.webm -> /run/downloads/d1.webm'')]) \<and>
   apply_animations (sim_os True [] []) deck pools_example [] (disk_example, [])
     = (Some (Exception ''Failed to find animation for: missing''), disk_example,
        [(ERROR, ''Failed to find animation for: missing'')]) \<and>
   ''/steam/config/uioverrides/movies/steam_os_suspend.webm'' \<notin>
     set (fst (snd (apply_animations (sim_os True [] []) deck pools_example []
       (disk_example, []))))"
  by (simp add: apply_animations_unrolled activation_defs example_defs)

text \<open>
  C1, amended: activation is not fault-isolated per slot. \<^verbatim>\<open>apply_animations\<close>
  activates the slots in the order boot, suspend, throbber and stops at the first
  slot whose activation raises: its result (the exception, the file system and the
  log) is that of the failing activation, so the slots after it are not attempted,
  and a slot is attempted only when every slot before it was activated without an
  exception.
\<close>

theorem apply_animations_stops_at_first_failure:
  assumes "b = apply_animation sys e cfg la (VIDEOS_NAMES e ! 0) (boot cfg) w"
    and "s = apply_animation sys e cfg la (VIDEOS_NAMES e ! 1) (suspend cfg) (snd b)"
    and "t = apply_animation sys e cfg la (VIDEOS_NAMES e ! 2) (throbber cfg) (snd s)"
  shows "(fst b \<noteq> None \<longrightarrow> apply_animations sys e cfg la w = b) \<and>
         (fst b = None \<and> fst s \<noteq> None \<longrightarrow> apply_animations sys e cfg la w = s) \<and>
         (fst b = None \<and> fst s = None \<longrightarrow> apply_animations sys e cfg la w = t)"
proof (intro conjI impI)
  assume "fst b \<noteq> None"
  then show "apply_animations sys e cfg la w = b"
    unfolding apply_animations_unrolled assms(1) by (auto split: prod.splits option.splits)
next
  assume h: "fst b = None \<and> fst s \<noteq> None"
  then obtain w1 where b: "b = (None, w1)" by (cases b) auto
  from h obtain ex w2 where s: "s = (Some ex, w2)" by (cases s) auto
  from b s assms(1,2) show "apply_animations sys e cfg la w = s"
    unfolding apply_animations_unrolled by (auto split: prod.splits option.splits)
next
  assume h: "fst b = None \<and> fst s = None"
  then obtain w1 where b: "b = (None, w1)" by (cases b) auto
  from h obtain w2 where s: "s = (None, w2)" by (cases s) auto
  from b s assms show "apply_animations sys e cfg la w = t"
    unfolding apply_animations_unrolled by (auto split: prod.splits option.splits)
qed

theorem apply_animations_stops_at_first_failure_witness:
  "fst (apply_animation (sim_os True [] []) deck pools_example [] (VIDEOS_NAMES deck ! 0)
      (boot pools_example) (disk_example, [])) \<noteq> None \<and>
   apply_animations (sim_os True [] []) deck pools_example [] (disk_example, []) =
     apply_animation (sim_os True [] []) deck pools_example [] (VIDEOS_NAMES deck ! 0)
      (boot pools_example) (disk_example, []) \<and>
   fst (apply_animation (sim_os True [] []) deck stale_example [] (VIDEOS_NAMES deck ! 0)
      (boot stale_example) (disk_example, [])) = None \<and>
   fst (apply_animation (sim_os True [] []) deck stale_example [] (VIDEOS_NAMES deck ! 1)
      (suspend stale_example)
      (snd (apply_animation (sim_os True [] []) deck stale_example [] (VIDEOS_NAMES deck ! 0)
         (boot stale_example) (disk_example, [])))) \<noteq> None \<and>
   apply_animations (sim_os True [] []) deck stale_example [] (disk_example, []) =
     apply_animation (sim_os True [] []) deck stale_example [] (VIDEOS_NAMES deck ! 1)
      (suspend stale_example)
      (snd (apply_animation (sim_os True [] []) deck stale_example [] (VIDEOS_NAMES deck ! 0)
         (boot stale_example) (disk_example, []))) \<and>
   fst (apply_animation (sim_os True [] []) deck idle_example [] (VIDEOS_NAMES deck ! 0)
      (boot idle_example) (disk_example, [])) = None \<and>
   fst (apply_animation (sim_os True [] []) deck idle_example [] (VIDEOS_NAMES deck ! 1)
      (suspend idle_example)
      (snd (apply_animation (sim_os True [] []) deck idle_example [] (VIDEOS_NAMES deck ! 0)
         (boot idle_example) (disk_example, [])))) = None \<and>
   apply_animations (sim_os True [] []) deck idle_example [] (disk_example, []) =
     apply_animation (sim_os True [] []) deck idle_example [] (VIDEOS_NAMES deck ! 2)
      (throbber idle_example)
      (snd (apply_animation (sim_os True [] []) deck idle_example [] (VIDEOS_NAMES deck ! 1)
         (suspend idle_example)
         (snd (apply_animation (sim_os True [] []) deck idle_example [] (VIDEOS_NAMES deck ! 0)
            (boot idle_example) (disk_example, [])))))"
proof -
  have p0: "fst (apply_animation (sim_os True [] []) deck pools_example [] (VIDEOS_NAMES deck ! 0)
      (boot pools_example) (disk_example, [])) \<noteq> None"
    by (simp add: activation_defs example_defs)
  have s0: "fst (apply_animation (sim_os True [] []) deck stale_example []
      (VIDEOS_NAMES deck ! 0) (boot stale_example) (disk_example, [])) = None"
    by (simp add: activation_defs example_defs)
  have s1: "fst (apply_animation (sim_os True [] []) deck stale_example []
      (VIDEOS_NAMES deck ! 1) (suspend stale_example)
      (snd (apply_animation (sim_os True [] []) deck stale_example [] (VIDEOS_NAMES deck ! 0)
         (boot stale_example) (disk_example, [])))) \<noteq> None"
    by (simp add: activation_defs example_defs)
  have i0: "fst (apply_animation (sim_os True [] []) deck idle_example []
      (VIDEOS_NAMES deck ! 0) (boot idle_example) (disk_example, [])) = None"
    by (simp add: activation_defs example_defs)
  have i1: "fst (apply_animation (sim_os True [] []) deck idle_example []
      (VIDEOS_NAMES deck ! 1) (suspend idle_example)
      (snd (apply_animation (sim_os True [] []) deck idle_example [] (VIDEOS_NAMES deck ! 0)
         (boot idle_example) (disk_example, [])))) = None"
    by (simp add: activation_defs example_defs)
  from p0 apply_animations_stops_at_first_failure
    [OF refl refl refl, of "sim_os True [] []" deck pools_example "[]" "(disk_example, [])"]
  have r1: "apply_animations (sim_os True [] []) deck pools_example [] (disk_example, []) =
     apply_animation (sim_os True [] []) deck pools_example [] (VIDEOS_NAMES deck ! 0)
      (boot pools_example) (disk_example, [])"
    by blast
  from s0 s1 apply_animations_stops_at_first_failure
    [OF refl refl refl, of "sim_os True [] []" deck stale_example "[]" "(disk_example, [])"]
  have r2: "apply_animations (sim_os True [] []) deck stale_example [] (disk_example, []) =
     apply_animation (sim_os True [] []) deck stale_example [] (VIDEOS_NAMES deck ! 1)
      (suspend stale_example)
      (snd (apply_animation (sim_os True [] []) deck stale_example [] (VIDEOS_NAMES deck ! 0)
         (boot stale_example) (disk_example, [])))"
    by blast
  from i0 i1 apply_animations_stops_at_first_failure
    [OF refl refl refl, of "sim_os True [] []" deck idle_example "[]" "(disk_example, [])"]
  have r3: "apply_animations (sim_os True [] []) deck idle_example [] (disk_example, []) =
     apply_animation (sim_os True [] []) deck idle_example [] (VIDEOS_NAMES deck ! 2)
      (throbber idle_example)
      (snd (apply_animation (sim_os True [] []) deck idle_example [] (VIDEOS_NAMES deck ! 1)
         (suspend idle_example)
         (snd (apply_animation (sim_os True [] []) deck idle_example [] (VIDEOS_NAMES deck ! 0)
            (boot idle_example) (disk_example, [])))))"
    by blast
  from p0 r1 s0 s1 r2 i0 i1 r3 show ?thesis by blast
qed

section \<open>Properties of the local scanner\<close>

lemmas scan_defs =
  load_local_animations_def scan_directories_def scan_directory_def detect_set_def
  build_set_def process_animation_def key_in_def get_enabled_def get_filename_def
  upt3 VIDEOS_NAMES_def get_video_names_def VIDEO_TYPES_def VIDEO_TARGETS_def
  anim_config_get_def set_put_def capitalize_def upper_char_def lower_char_def Let_def

lemma detect_set_unparseable:
  assumes "path_exists sys fs
      (path_join sys (path_join sys (ANIMATIONS_PATH e) d) ''config.json'')"
    and "load_json sys fs
      (path_join sys (path_join sys (ANIMATIONS_PATH e) d) ''config.json'') = Inl ex"
  shows "detect_set sys e fs d =
     (False, JObject \<lparr>c_enabled = None, c_boot = None, c_suspend = None, c_throbber = None\<rparr>,
      [(WARNING, ''Failed to parse config.json for: '' @ d)])"
  using assms by (simp add: detect_set_def Let_def)

lemma scan_directory_unparseable:
  assumes "path_exists sys fs
      (path_join sys (path_join sys (ANIMATIONS_PATH e) d) ''config.json'')"
    and "load_json sys fs
      (path_join sys (path_join sys (ANIMATIONS_PATH e) d) ''config.json'') = Inl ex"
  shows "scan_directory sys e fs d (a, s, lg) =
           (None, a, s, lg @ [(WARNING, ''Failed to parse config.json for: '' @ d)])"
  by (simp add: scan_directory_def detect_set_unparseable [OF assms])

text \<open>
  A config that parses, but to a number, is another matter: the test
  \<^verbatim>\<open>'enabled' in anim_config\<close> raises outside the \<^verbatim>\<open>try\<close>, and the scan ends with
  that exception.
\<close>

lemma scan_directory_number:
  assumes "path_exists sys fs
      (path_join sys (path_join sys (ANIMATIONS_PATH e) d) ''config.json'')"
    and "load_json sys fs
      (path_join sys (path_join sys (ANIMATIONS_PATH e) d) ''config.json'') = Inr (JNumber n)"
  shows "scan_directory sys e fs d (a, s, lg) =
     (Some (TypeError ''argument of type int is not iterable''), a, s, lg)"
  using assms by (simp add: scan_directory_def detect_set_def build_set_def key_in_def Let_def)

lemma scan_aborts_on_number_example:
  "load_local_animations abort_os deck abort_disk [] =
     (Inl (TypeError ''argument of type int is not iterable''),
      [(WARNING, ''Failed to parse config.json for: a'')])"
  by (simp add: scan_defs abort_os_def abort_disk_def scan_disk_def sim_os_def deck_def)

text \<open>The log does not steer the scan, and a round only appends to it.\<close>

lemma scan_directory_scanned:
  "scanned (scan_directory sys e fs d (a, s, lg)) =
   scanned (scan_directory sys e fs d (a, s, lg'))"
  by (simp add: scan_directory_def scanned_def split: prod.splits sum.splits)

lemma scan_directory_log_grows:
  "\<exists>ext. snd (snd (snd (scan_directory sys e fs d (a, s, lg)))) = lg @ ext"
  by (simp add: scan_directory_def split: prod.splits sum.splits)

lemma scan_loop_scanned:
  "scanned (scan_loop sys e fs ds (a, s, lg)) = scanned (scan_loop sys e fs ds (a, s, lg'))"
proof (induction ds arbitrary: a s lg lg')
  case Nil
  show ?case by (simp add: scanned_def)
next
  case (Cons d ds)
  obtain r1 a1 s1 l1 where r1: "scan_directory sys e fs d (a, s, lg) = (r1, a1, s1, l1)"
    by (cases "scan_directory sys e fs d (a, s, lg)") auto
  obtain r2 a2 s2 l2 where r2: "scan_directory sys e fs d (a, s, lg') = (r2, a2, s2, l2)"
    by (cases "scan_directory sys e fs d (a, s, lg')") auto
  from scan_directory_scanned [of sys e fs d a s lg lg'] r1 r2
  have eq: "r1 = r2" "a1 = a2" "s1 = s2" by (simp_all add: scanned_def)
  show ?case
  proof (cases r1)
    case None
    with eq r1 r2 Cons.IH [of a1 s1 l1 l2] show ?thesis by simp
  next
    case (Some ex)
    with eq have "r2 = Some ex" by simp
    with Some eq r1 r2 show ?thesis by (simp add: scanned_def)
  qed
qed

lemma scan_loop_log_grows:
  "\<exists>ext. snd (snd (snd (scan_loop sys e fs ds (a, s, lg)))) = lg @ ext"
proof (induction ds arbitrary: a s lg)
  case Nil
  show ?case by simp
next
  case (Cons d ds)
  obtain r1 a1 s1 l1 where r1: "scan_directory sys e fs d (a, s, lg) = (r1, a1, s1, l1)"
    by (cases "scan_directory sys e fs d (a, s, lg)") auto
  with scan_directory_log_grows [of sys e fs d a s lg] obtain ext1 where l1: "l1 = lg @ ext1"
    by auto
  show ?case
  proof (cases r1)
    case None
    from Cons.IH [of a1 s1 l1] obtain ext2 where
      "snd (snd (snd (scan_loop sys e fs ds (a1, s1, l1)))) = l1 @ ext2" by blast
    with None r1 l1 show ?thesis by simp
  next
    case (Some ex)
    with r1 l1 show ?thesis by simp
  qed
qed

text \<open>The loop over a list in two parts: the second part runs if the first did not raise.\<close>

lemma scan_loop_append:
  "scan_loop sys e fs (pre @ rest) acc =
     (case scan_loop sys e fs pre acc of
        (Some ex, acc') \<Rightarrow> (Some ex, acc')
      | (None, acc') \<Rightarrow> scan_loop sys e fs rest acc')"
  by (induction pre arbitrary: acc) (auto split: prod.splits option.splits)

text \<open>
  C5, as the claim states it, fails: directory \<open>a\<close> has a config file that does
  not parse and the default boot file \<^verbatim>\<open>deck_startup.webm\<close> on disk, and the scan
  yields no set and no entry for it (only those of directory \<open>b\<close>): there is no
  fall-back to the default file names. Without the config file the same directory
  yields a set.
\<close>

theorem scan_unparseable_config_counterexample:
  "path_exists scan_os scan_disk ''/run/animations/a/config.json'' \<and>
   load_json scan_os scan_disk ''/run/animations/a/config.json''
     = Inl (Exception ''Expecting value'') \<and>
   path_exists scan_os scan_disk ''/run/animations/a/deck_startup.webm'' \<and>
   load_local_animations scan_os deck scan_disk [] =
     (Inr ([\<lparr>a_id = ''b/steam_os_suspend.webm'', a_name = ''b - Suspend'',
              a_target = ''suspend'', a_path = None, a_meta = None\<rparr>],
           [\<lparr>s_id = ''b'', enabled = True, s_boot = Some [],
              s_suspend = Some ''steam_os_suspend.webm'', s_throbber = Some [],
              enable = None\<rparr>]),
      [(WARNING, ''Failed to parse config.json for: a'')]) \<and>
   map s_id (fst (snd (snd (scan_directories scan_os deck (tl scan_disk) [''a'', ''b''] []))))
     = [''a'', ''b'']"
  by (simp add: scan_defs scan_os_def scan_disk_def sim_os_def deck_def)

text \<open>
  C5, amended: during a local scan, for every subdirectory whose per-set config file
  exists but fails to parse (opening or loading it raises), the round of that
  directory logs the failure as a warning, raises nothing and skips the directory:
  whatever files the directory holds, it yields no set and no entries. The failure
  does not abort the scan: what the scan yields (the entries, the sets, or the
  exception with which another directory ends it) is what a scan of the other
  directories alone yields, those before and those after it; and every scan that
  reaches the directory has the warning in its log.
\<close>

theorem scan_skips_unparseable_config:
  assumes "path_exists sys fs
      (path_join sys (path_join sys (ANIMATIONS_PATH e) d) ''config.json'')"
    and "load_json sys fs
      (path_join sys (path_join sys (ANIMATIONS_PATH e) d) ''config.json'') = Inl ex"
  shows "scan_directory sys e fs d (a, s, l0) =
           (None, a, s, l0 @ [(WARNING, ''Failed to parse config.json for: '' @ d)]) \<and>
         fst (scan_directories sys e fs (pre @ d # post) lg) =
           fst (scan_directories sys e fs (pre @ post) lg) \<and>
         fst (snd (scan_directories sys e fs (pre @ d # post) lg)) =
           fst (snd (scan_directories sys e fs (pre @ post) lg)) \<and>
         fst (snd (snd (scan_directories sys e fs (pre @ d # post) lg))) =
           fst (snd (snd (scan_directories sys e fs (pre @ post) lg))) \<and>
         (fst (scan_directories sys e fs pre lg) = None \<longrightarrow>
            (WARNING, ''Failed to parse config.json for: '' @ d)
              \<in> set (snd (snd (snd (scan_directories sys e fs (pre @ d # post) lg)))))"
proof -
  obtain r a1 s1 l where pre: "scan_loop sys e fs pre ([], [], lg) = (r, a1, s1, l)"
    by (cases "scan_loop sys e fs pre ([], [], lg)") auto
  let ?w = "(WARNING, ''Failed to parse config.json for: '' @ d)"
  have round: "scan_directory sys e fs d (a, s, l0) = (None, a, s, l0 @ [?w])" for a s l0
    by (rule scan_directory_unparseable [OF assms])
  show ?thesis
  proof (cases r)
    case (Some x)
    have "scan_directories sys e fs (pre @ d # post) lg = (Some x, a1, s1, l)"
      by (simp add: scan_directories_def scan_loop_append pre Some)
    moreover have "scan_directories sys e fs (pre @ post) lg = (Some x, a1, s1, l)"
      by (simp add: scan_directories_def scan_loop_append pre Some)
    moreover have "fst (scan_directories sys e fs pre lg) \<noteq> None"
      by (simp add: scan_directories_def pre Some)
    ultimately show ?thesis using round [of a s l0] by auto
  next
    case None
    have full: "scan_directories sys e fs (pre @ d # post) lg =
        scan_loop sys e fs post (a1, s1, l @ [?w])"
      by (simp add: scan_directories_def scan_loop_append pre None round)
    have without: "scan_directories sys e fs (pre @ post) lg =
        scan_loop sys e fs post (a1, s1, l)"
      by (simp add: scan_directories_def scan_loop_append pre None)
    from scan_loop_scanned [of sys e fs post a1 s1 "l @ [?w]" l] full without
    have "scanned (scan_directories sys e fs (pre @ d # post) lg) =
        scanned (scan_directories sys e fs (pre @ post) lg)" by simp
    moreover from scan_loop_log_grows [of sys e fs post a1 s1 "l @ [?w]"] full
    have "?w \<in> set (snd (snd (snd (scan_directories sys e fs (pre @ d # post) lg))))"
      by auto
    ultimately show ?thesis using round [of a s l0] by (auto simp: scanned_def)
  qed
qed

theorem scan_skips_unparseable_config_witness:
  "path_exists scan_os scan_disk
     (path_join scan_os (path_join scan_os (ANIMATIONS_PATH deck) ''a'') ''config.json'') \<and>
   load_json scan_os scan_disk
     (path_join scan_os (path_join scan_os (ANIMATIONS_PATH deck) ''a'') ''config.json'')
     = Inl (Exception ''Expecting value'') \<and>
   fst (scan_directories scan_os deck scan_disk [] []) = None \<and>
   scan_directory scan_os deck scan_disk ''a'' ([], [], []) =
     (None, [], [], [(WARNING, ''Failed to parse config.json for: a'')]) \<and>
   fst (scan_directories scan_os deck scan_disk ([] @ ''a'' # [''b'']) []) = None \<and>
   map s_id (fst (snd (snd (scan_directories scan_os deck scan_disk ([] @ ''a'' # [''b'']) []))))
     = [''b''] \<and>
   map a_id (fst (snd (scan_directories scan_os deck scan_disk ([] @ ''a'' # [''b'']) [])))
     = [''b/steam_os_suspend.webm''] \<and>
   (WARNING, ''Failed to parse config.json for: '' @ ''a'')
     \<in> set (snd (snd (snd (scan_directories scan_os deck scan_disk ([] @ ''a'' # [''b'']) []))))"
proof -
  have h1: "path_exists scan_os scan_disk
     (path_join scan_os (path_join scan_os (ANIMATIONS_PATH deck) ''a'') ''config.json'')"
    by (simp add: scan_os_def scan_disk_def sim_os_def deck_def)
  have h2: "load_json scan_os scan_disk
     (path_join scan_os (path_join scan_os (ANIMATIONS_PATH deck) ''a'') ''config.json'')
     = Inl (Exception ''Expecting value'')"
    by (simp add: scan_os_def scan_disk_def sim_os_def deck_def)
  have h3: "fst (scan_directories scan_os deck scan_disk [] []) = None"
    by (simp add: scan_directories_def)
  have b: "scan_directories scan_os deck scan_disk ([] @ [''b'']) [] =
      (None,
       [\<lparr>a_id = ''b/steam_os_suspend.webm'', a_name = ''b - Suspend'',
          a_target = ''suspend'', a_path = None, a_meta = None\<rparr>],
       [\<lparr>s_id = ''b'', enabled = True, s_boot = Some [],
          s_suspend = Some ''steam_os_suspend.webm'', s_throbber = Some [],
          enable = None\<rparr>],
       [])"
    by (simp add: scan_defs scan_os_def scan_disk_def sim_os_def deck_def)
  from scan_skips_unparseable_config [OF h1 h2, of "[]" "[]" "[]" "[]" "[''b'']" "[]"] b h1 h2 h3
  show ?thesis by simp
qed

section \<open>Properties of enabling a set\<close>

text \<open>
  The assignment \<^verbatim>\<open>entry['enable'] = enable\<close> writes the key \<^verbatim>\<open>'enable'\<close>; the key
  \<^verbatim>\<open>'enabled'\<close>, which \<^verbatim>\<open>get_active_sets\<close> and the scanner read, keeps its value in
  every entry.
\<close>

lemma enable_first_enabled:
  "enable_first set_id en xs = Some (entry, xs') \<Longrightarrow>
     map enabled xs' = map enabled xs \<and> map s_id xs' = map s_id xs \<and>
     map s_id (filter enabled xs') = map s_id (filter enabled xs)"
  by (induction xs arbitrary: xs') (auto split: if_splits option.splits)

lemma enableSet_enabled_unchanged:
  assumes "enableSet sys e set_id en (ls, cfg, fs, lg) = (r, ls', cfg', fs', lg')"
  shows "map enabled ls' = map enabled ls \<and>
         map enabled (custom_sets cfg') = map enabled (custom_sets cfg) \<and>
         map s_id (get_active_sets ls' cfg') = map s_id (get_active_sets ls cfg)"
proof (cases "enable_first set_id en ls")
  case (Some found)
  obtain entry xs' where f: "found = (entry, xs')" by (cases found) auto
  from assms Some f have "ls' = xs'" "cfg' = cfg"
    by (auto simp: enableSet_def Let_def split: prod.splits option.splits)
  with enable_first_enabled [of set_id en ls entry xs'] Some f show ?thesis
    by (simp add: get_active_sets_def)
next
  case None
  show ?thesis
  proof (cases "enable_first set_id en (custom_sets cfg)")
    case inner: None
    from assms None inner have "ls' = ls" "cfg' = cfg"
      by (auto simp: enableSet_def)
    then show ?thesis by simp
  next
    case (Some found)
    obtain entry xs' where f: "found = (entry, xs')" by (cases found) auto
    from assms None Some f have "ls' = ls" "cfg' = cfg\<lparr>custom_sets := xs'\<rparr>"
      by (auto simp: enableSet_def Let_def split: prod.splits option.splits)
    with enable_first_enabled [of set_id en "custom_sets cfg" entry xs'] Some f show ?thesis
      by (simp add: get_active_sets_def)
  qed
qed

text \<open>
  C4 on the code, at a local set \<open>a\<close> and a custom set \<open>c\<close>, both enabled:
  after \<^verbatim>\<open>enableSet('a', False)\<close> and after \<^verbatim>\<open>enableSet('c', False)\<close> the set's
  flag \<^verbatim>\<open>'enabled'\<close> is still true and both sets are still in the pool of
  \<^verbatim>\<open>get_active_sets\<close>; the call has added the key \<^verbatim>\<open>'enable'\<close> and written the
  per-directory file, respectively the config.
\<close>

theorem enableSet_leaves_enabled_flag:
  "enableSet (sim_os True [] []) deck ''a'' False
      ([plain_set ''a'' True], empty_config\<lparr>custom_sets := [plain_set ''c'' True]\<rparr>, [], [])
     = (None, [(plain_set ''a'' True)\<lparr>enable := Some False\<rparr>],
        empty_config\<lparr>custom_sets := [plain_set ''c'' True]\<rparr>,
        [''/run/animations/a/config.json''], []) \<and>
   enabled ((plain_set ''a'' True)\<lparr>enable := Some False\<rparr>) \<and>
   map s_id (get_active_sets [(plain_set ''a'' True)\<lparr>enable := Some False\<rparr>]
      (empty_config\<lparr>custom_sets := [plain_set ''c'' True]\<rparr>)) = [''a'', ''c''] \<and>
   enableSet (sim_os True [] []) deck ''c'' False
      ([plain_set ''a'' True], empty_config\<lparr>custom_sets := [plain_set ''c'' True]\<rparr>, [], [])
     = (None, [plain_set ''a'' True],
        empty_config\<lparr>custom_sets := [(plain_set ''c'' True)\<lparr>enable := Some False\<rparr>]\<rparr>,
        [''/settings/config.json''], []) \<and>
   enabled ((plain_set ''c'' True)\<lparr>enable := Some False\<rparr>) \<and>
   map s_id (get_active_sets [plain_set ''a'' True]
      (empty_config\<lparr>custom_sets := [(plain_set ''c'' True)\<lparr>enable := Some False\<rparr>]\<rparr>))
     = [''a'', ''c'']"
  by (simp add: enableSet_def save_config_def get_active_sets_def plain_set_def
        empty_config_def sim_os_def deck_def Let_def)

end
